theory Spec2Isabelle
  imports Complex_Main "HOL-Library.AList"
begin

section \<open>JavaScript values\<close>

text \<open>
  A JavaScript \<open>number\<close> is modelled as a real number or one of the three special
  values of IEEE arithmetic. Rounding is abstracted away: a finite result is the exact
  real one. The sign of zero is not modelled (every divisor in the code is a length or
  a count, hence a non-negative zero). Where the operands are arbitrary numbers given by
  the caller, which is the case in \<open>calculatePerplexityFromLogProbs\<close> only, the sum and
  the exponential are taken with the range of the finite numbers (\<open>jaddR\<close>, \<open>jexpR\<close>).
\<close>

datatype jsnum = Fin real | PInf | NInf | NaN

fun isFinite :: "jsnum \<Rightarrow> bool" where
  "isFinite (Fin _) = True"
| "isFinite _ = False"

fun jneg :: "jsnum \<Rightarrow> jsnum" where
  "jneg (Fin a) = Fin (- a)"
| "jneg PInf = NInf"
| "jneg NInf = PInf"
| "jneg NaN = NaN"

fun jadd :: "jsnum \<Rightarrow> jsnum \<Rightarrow> jsnum" where
  "jadd (Fin a) (Fin b) = Fin (a + b)"
| "jadd NaN _ = NaN"
| "jadd _ NaN = NaN"
| "jadd PInf NInf = NaN"
| "jadd NInf PInf = NaN"
| "jadd PInf _ = PInf"
| "jadd _ PInf = PInf"
| "jadd NInf _ = NInf"
| "jadd _ NInf = NInf"

definition jsub :: "jsnum \<Rightarrow> jsnum \<Rightarrow> jsnum" where
  "jsub a b = jadd a (jneg b)"

fun jsign :: "jsnum \<Rightarrow> int" where
  "jsign (Fin a) = (if a < 0 then -1 else if a = 0 then 0 else 1)"
| "jsign PInf = 1"
| "jsign NInf = -1"
| "jsign NaN = 0"

definition infOfSign :: "int \<Rightarrow> jsnum" where
  "infOfSign s = (if s = 0 then NaN else if s < 0 then NInf else PInf)"

fun jmul :: "jsnum \<Rightarrow> jsnum \<Rightarrow> jsnum" where
  "jmul (Fin a) (Fin b) = Fin (a * b)"
| "jmul NaN _ = NaN"
| "jmul _ NaN = NaN"
| "jmul a b = infOfSign (jsign a * jsign b)"

fun jdiv :: "jsnum \<Rightarrow> jsnum \<Rightarrow> jsnum" where
  "jdiv (Fin a) (Fin b) = (if b = 0 then infOfSign (jsign (Fin a)) else Fin (a / b))"
| "jdiv NaN _ = NaN"
| "jdiv _ NaN = NaN"
| "jdiv (Fin a) _ = Fin 0"
| "jdiv a (Fin b) = infOfSign (jsign a * (if b < 0 then -1 else 1))"
| "jdiv _ _ = NaN"

fun jlt :: "jsnum \<Rightarrow> jsnum \<Rightarrow> bool" where
  "jlt NaN _ = False"
| "jlt _ NaN = False"
| "jlt (Fin a) (Fin b) = (a < b)"
| "jlt NInf b = (b \<noteq> NInf)"
| "jlt a PInf = (a \<noteq> PInf)"
| "jlt _ _ = False"

definition jgt :: "jsnum \<Rightarrow> jsnum \<Rightarrow> bool" where
  "jgt a b = jlt b a"

definition jle :: "jsnum \<Rightarrow> jsnum \<Rightarrow> bool" where
  "jle a b = (a \<noteq> NaN \<and> b \<noteq> NaN \<and> (a = b \<or> jlt a b))"

definition jge :: "jsnum \<Rightarrow> jsnum \<Rightarrow> bool" where
  "jge a b = jle b a"

fun jabs :: "jsnum \<Rightarrow> jsnum" where
  "jabs (Fin a) = Fin \<bar>a\<bar>"
| "jabs NaN = NaN"
| "jabs _ = PInf"

text \<open>\<open>Math.min\<close>: \<open>NaN\<close> if either argument is.\<close>

definition jmin :: "jsnum \<Rightarrow> jsnum \<Rightarrow> jsnum" where
  "jmin a b = (if a = NaN \<or> b = NaN then NaN else if jlt b a then b else a)"

text \<open>\<open>Math.pow(x, 2)\<close>.\<close>

fun jsquare :: "jsnum \<Rightarrow> jsnum" where
  "jsquare (Fin a) = Fin (a ^ 2)"
| "jsquare NaN = NaN"
| "jsquare _ = PInf"

fun jexp :: "jsnum \<Rightarrow> jsnum" where
  "jexp (Fin a) = Fin (exp a)"
| "jexp PInf = PInf"
| "jexp NInf = Fin 0"
| "jexp NaN = NaN"

text \<open>
  A JavaScript string is modelled as a \<^typ>\<open>string\<close> whose characters are read as the
  UTF-16 code units \<open>0\<close> to \<open>255\<close> (ASCII and Latin-1).
\<close>

text \<open>\<open>String.prototype.toLowerCase\<close> on these code units.\<close>

definition toLowerChar :: "char \<Rightarrow> char" where
  "toLowerChar c =
     (let n = (of_char c :: nat)
      in if (65 \<le> n \<and> n \<le> 90) \<or> (192 \<le> n \<and> n \<le> 222 \<and> n \<noteq> 215)
         then char_of (n + 32) else c)"

definition toLowerCase :: "string \<Rightarrow> string" where
  "toLowerCase s = map toLowerChar s"

text \<open>The regular-expression class \<open>\w\<close>: \<open>[A-Za-z0-9_]\<close>.\<close>

definition isWordChar :: "char \<Rightarrow> bool" where
  "isWordChar c =
     (let n = (of_char c :: nat)
      in (48 \<le> n \<and> n \<le> 57) \<or> (65 \<le> n \<and> n \<le> 90) \<or> n = 95 \<or> (97 \<le> n \<and> n \<le> 122))"

text \<open>
  The class \<open>\s\<close>, which is also what \<open>trim\<close> removes: tab, line feed, vertical tab,
  form feed, carriage return, space and no-break space.
\<close>

definition isSpaceChar :: "char \<Rightarrow> bool" where
  "isSpaceChar c =
     (let n = (of_char c :: nat) in (9 \<le> n \<and> n \<le> 13) \<or> n = 32 \<or> n = 160)"

definition trim :: "string \<Rightarrow> string" where
  "trim s = rev (dropWhile isSpaceChar (rev (dropWhile isSpaceChar s)))"

text \<open>\<open>Array.prototype.slice(start, end)\<close>, negative indices counting from the end.\<close>

definition jsSlice :: "'a list \<Rightarrow> int \<Rightarrow> int \<Rightarrow> 'a list" where
  "jsSlice xs s e =
     (let len = int (length xs);
          from = (if s < 0 then max (len + s) 0 else min s len);
          to = (if e < 0 then max (len + e) 0 else min e len)
      in take (nat (to - from)) (drop (nat from) xs))"

text \<open>\<open>Array.prototype.join(' ')\<close>.\<close>

fun joinSp :: "string list \<Rightarrow> string" where
  "joinSp [] = []"
| "joinSp [w] = w"
| "joinSp (w # v # ws) = w @ CHR '' '' # joinSp (v # ws)"

section \<open>ML metrics: tokens, n-grams, ROUGE\<close>

text \<open>
  \<open>split(/\s+/)\<close>: the pieces between maximal runs of white space, an empty piece
  included where the string starts or ends with white space. \<open>cur\<close> is the current
  piece, reversed; \<open>insep\<close> says that the scan is inside a separator.
\<close>

fun splitWs :: "string \<Rightarrow> bool \<Rightarrow> string \<Rightarrow> string list" where
  "splitWs cur insep [] = [rev cur]"
| "splitWs cur insep (c # cs) =
     (if isSpaceChar c
      then (if insep then splitWs cur True cs else rev cur # splitWs [] True cs)
      else splitWs (c # cur) False cs)"

text \<open>\<open>replace(/[^\w\s]/g, ' ')\<close>.\<close>

definition replacePunct :: "string \<Rightarrow> string" where
  "replacePunct s = map (\<lambda>c. if isWordChar c \<or> isSpaceChar c then c else CHR '' '') s"

definition tokenize :: "string \<Rightarrow> string list" where
  "tokenize str =
     filter (\<lambda>word. length word > 0) (splitWs [] False (replacePunct (toLowerCase str)))"

text \<open>
  \<open>generateNGrams\<close>: the loop \<open>for (i = 0; i <= tokens.length - n; i++)\<close> runs for
  no \<open>i\<close> when the bound is negative.
\<close>

definition generateNGrams :: "string list \<Rightarrow> int \<Rightarrow> string list" where
  "generateNGrams tokens n =
     map (\<lambda>i. joinSp (jsSlice tokens i (i + n))) [0..int (length tokens) - n]"

record PRF =
  precision :: real
  recall :: real
  f1 :: real

text \<open>
  \<open>calculatePrecisionRecallF1\<close>. A \<open>Set\<close> is the list of the distinct elements; only
  its size and membership are used. Every division is guarded by the code (the
  reference set is non-empty past the first test), so the scores are reals.
\<close>

definition calculatePrecisionRecallF1 :: "string list \<Rightarrow> string list \<Rightarrow> PRF" where
  "calculatePrecisionRecallF1 candidateNGrams referenceNGrams =
     (if length referenceNGrams = 0 then \<lparr>precision = 0, recall = 0, f1 = 0\<rparr>
      else
        let candidateSet = remdups candidateNGrams;
            referenceSet = remdups referenceNGrams;
            matches = length (filter (\<lambda>ngram. ngram \<in> set referenceSet) candidateSet);
            p = (if length candidateSet > 0
                 then real matches / real (length candidateSet) else 0);
            r = real matches / real (length referenceSet);
            f = (if p + r > 0 then (2 * p * r) / (p + r) else 0)
        in \<lparr>precision = p, recall = r, f1 = f\<rparr>)"

text \<open>
  \<open>lcsLength\<close>: the table \<open>dp\<close> of \<open>m + 1\<close> rows of \<open>n + 1\<close> zeros, filled row by
  row. \<open>lcsCell\<close> is the body of the inner loop, \<open>lcsRow\<close> the inner loop.
\<close>

definition lcsCell :: "string list \<Rightarrow> string list \<Rightarrow> nat \<Rightarrow> nat list list \<Rightarrow> nat \<Rightarrow> nat list list" where
  "lcsCell seq1 seq2 i dp j =
     (if seq1 ! (i - 1) = seq2 ! (j - 1)
      then dp[i := (dp ! i)[j := dp ! (i - 1) ! (j - 1) + 1]]
      else dp[i := (dp ! i)[j := max (dp ! (i - 1) ! j) (dp ! i ! (j - 1))]])"

definition lcsRow :: "string list \<Rightarrow> string list \<Rightarrow> nat list list \<Rightarrow> nat \<Rightarrow> nat list list" where
  "lcsRow seq1 seq2 dp i = foldl (lcsCell seq1 seq2 i) dp [1..<Suc (length seq2)]"

definition lcsTable :: "string list \<Rightarrow> string list \<Rightarrow> nat list list" where
  "lcsTable seq1 seq2 =
     foldl (lcsRow seq1 seq2)
       (replicate (length seq1 + 1) (replicate (length seq2 + 1) 0))
       [1..<Suc (length seq1)]"

definition lcsLength :: "string list \<Rightarrow> string list \<Rightarrow> nat" where
  "lcsLength seq1 seq2 = lcsTable seq1 seq2 ! length seq1 ! length seq2"

record ROUGEScores =
  rouge1 :: PRF
  rouge2 :: PRF
  rougeL :: PRF

text \<open>The parameter \<open>references: string | string[]\<close>.\<close>

datatype References = Single string | Many "string list"

fun refsOf :: "References \<Rightarrow> string list" where
  "refsOf (Single r) = [r]"
| "refsOf (Many rs) = rs"

text \<open>
  The body of the loop over the references, on the candidate's tokens, unigrams and
  bigrams, which are computed once before the loop: the three running best records.
\<close>

definition rougeStep ::
  "string list \<Rightarrow> string list \<Rightarrow> string list \<Rightarrow> ROUGEScores \<Rightarrow> string \<Rightarrow> ROUGEScores" where
  "rougeStep candidateTokens candidateUnigrams candidateBigrams best reference =
     (let refTokens = tokenize reference;
          refUnigrams = generateNGrams refTokens 1;
          refBigrams = generateNGrams refTokens 2;
          r1 = calculatePrecisionRecallF1 candidateUnigrams refUnigrams;
          bestRouge1 = (if f1 r1 > f1 (rouge1 best) then r1 else rouge1 best);
          r2 = calculatePrecisionRecallF1 candidateBigrams refBigrams;
          bestRouge2 = (if f1 r2 > f1 (rouge2 best) then r2 else rouge2 best);
          lcsLen = lcsLength candidateTokens refTokens;
          rougeLPrecision = (if length candidateTokens > 0
                             then real lcsLen / real (length candidateTokens) else 0);
          rougeLRecall = (if length refTokens > 0
                          then real lcsLen / real (length refTokens) else 0);
          rougeLF1 = (if rougeLPrecision + rougeLRecall > 0
                      then (2 * rougeLPrecision * rougeLRecall) / (rougeLPrecision + rougeLRecall)
                      else 0);
          bestRougeL = (if rougeLF1 > f1 (rougeL best)
                        then \<lparr>precision = rougeLPrecision, recall = rougeLRecall, f1 = rougeLF1\<rparr>
                        else rougeL best)
      in \<lparr>rouge1 = bestRouge1, rouge2 = bestRouge2, rougeL = bestRougeL\<rparr>)"

definition calculateROUGE :: "string \<Rightarrow> References \<Rightarrow> ROUGEScores" where
  "calculateROUGE candidate references =
     (let refs = refsOf references
      in if length refs = 0 \<or> length (trim candidate) = 0
         then \<lparr>rouge1 = \<lparr>precision = 0, recall = 0, f1 = 0\<rparr>,
               rouge2 = \<lparr>precision = 0, recall = 0, f1 = 0\<rparr>,
               rougeL = \<lparr>precision = 0, recall = 0, f1 = 0\<rparr>\<rparr>
         else
           let candidateTokens = tokenize candidate;
               candidateUnigrams = generateNGrams candidateTokens 1;
               candidateBigrams = generateNGrams candidateTokens 2
           in foldl (rougeStep candidateTokens candidateUnigrams candidateBigrams)
                \<lparr>rouge1 = \<lparr>precision = 0, recall = 0, f1 = 0\<rparr>,
                 rouge2 = \<lparr>precision = 0, recall = 0, f1 = 0\<rparr>,
                 rougeL = \<lparr>precision = 0, recall = 0, f1 = 0\<rparr>\<rparr> refs)"

section \<open>ML metrics: perplexity\<close>

record PerplexityResult =
  perplexity :: jsnum
  averageLogProbability :: jsnum
  tokenCount :: nat

text \<open>\<open>Math.log\<close>.\<close>

fun jlog :: "jsnum \<Rightarrow> jsnum" where
  "jlog (Fin a) = (if a < 0 then NaN else if a = 0 then NInf else Fin (ln a))"
| "jlog PInf = PInf"
| "jlog _ = NaN"

text \<open>
  A \<open>Map<string, number>\<close> of counts is an association list in insertion order;
  \<open>getCount m k\<close> is \<open>m.get(k) || 0\<close>, \<open>increment m k\<close> is
  \<open>m.set(k, (m.get(k) || 0) + 1)\<close>, the length of the list is \<open>m.size\<close>.
\<close>

definition getCount :: "(string \<times> nat) list \<Rightarrow> string \<Rightarrow> nat" where
  "getCount m k = (case map_of m k of None \<Rightarrow> 0 | Some c \<Rightarrow> c)"

definition increment :: "(string \<times> nat) list \<Rightarrow> string \<Rightarrow> (string \<times> nat) list" where
  "increment m k = AList.update k (getCount m k + 1) m"

text \<open>
  The record returned at the end of \<open>calculatePerplexity\<close> and
  \<open>calculateUnigramPerplexity\<close>.
\<close>

definition perplexityRecord :: "jsnum \<Rightarrow> nat \<Rightarrow> PerplexityResult" where
  "perplexityRecord averageLogProb count =
     (let perp = jexp (jneg averageLogProb)
      in \<lparr>perplexity = (if isFinite perp then perp else PInf),
          averageLogProbability = (if isFinite averageLogProb then averageLogProb else NInf),
          tokenCount = count\<rparr>)"

definition calculateUnigramPerplexity :: "string list \<Rightarrow> PerplexityResult" where
  "calculateUnigramPerplexity tokens =
     (if length tokens = 0
      then \<lparr>perplexity = PInf, averageLogProbability = NInf, tokenCount = 0\<rparr>
      else
        let wordCounts = foldl increment [] tokens;
            vocabularySize = length wordCounts;
            totalLogProb =
              foldl (\<lambda>total token.
                       jadd total
                         (jlog (jdiv (Fin (real (getCount wordCounts token + 1)))
                                     (Fin (real (length tokens + vocabularySize + 1))))))
                    (Fin 0) tokens;
            averageLogProb = jdiv totalLogProb (Fin (real (length tokens)))
        in perplexityRecord averageLogProb (length tokens))"

text \<open>
  \<open>calculatePerplexity\<close>. \<open>ngramAt\<close> and \<open>contextAt\<close> are the two strings computed at
  position \<open>i\<close> by both loops; \<open>buildModel\<close> is the first loop, which fills
  \<open>ngramCounts\<close> and \<open>contextCounts\<close>; \<open>scoreNGrams\<close> is the second, which adds the
  logarithms up and counts the n-grams scored.
\<close>

definition ngramAt :: "string list \<Rightarrow> int \<Rightarrow> int \<Rightarrow> string" where
  "ngramAt tokens ngramOrder i = joinSp (jsSlice tokens i (i + ngramOrder))"

definition contextAt :: "string list \<Rightarrow> int \<Rightarrow> int \<Rightarrow> string" where
  "contextAt tokens ngramOrder i = joinSp (jsSlice tokens i (i + ngramOrder - 1))"

definition buildModel ::
  "string list \<Rightarrow> int \<Rightarrow> (string \<times> nat) list \<times> (string \<times> nat) list" where
  "buildModel tokens ngramOrder =
     foldl (\<lambda>(ngramCounts, contextCounts) i.
              (increment ngramCounts (ngramAt tokens ngramOrder i),
               increment contextCounts (contextAt tokens ngramOrder i)))
           ([], []) [0..int (length tokens) - ngramOrder]"

definition scoreNGrams ::
  "string list \<Rightarrow> int \<Rightarrow> (string \<times> nat) list \<Rightarrow> (string \<times> nat) list \<Rightarrow> jsnum \<times> nat" where
  "scoreNGrams tokens ngramOrder ngramCounts contextCounts =
     foldl (\<lambda>(totalLogProb, validNGrams) i.
              (jadd totalLogProb
                 (jlog (jdiv (Fin (real (getCount ngramCounts (ngramAt tokens ngramOrder i) + 1)))
                             (Fin (real (getCount contextCounts (contextAt tokens ngramOrder i)
                                         + length ngramCounts + 1))))),
               validNGrams + 1))
           (Fin 0, 0) [0..int (length tokens) - ngramOrder]"

definition calculatePerplexity :: "string \<Rightarrow> int \<Rightarrow> PerplexityResult" where
  "calculatePerplexity str ngramOrder =
     (if length (trim str) = 0
      then \<lparr>perplexity = PInf, averageLogProbability = NInf, tokenCount = 0\<rparr>
      else
        let tokens = tokenize str
        in if int (length tokens) < ngramOrder then calculateUnigramPerplexity tokens
           else
             let (ngramCounts, contextCounts) = buildModel tokens ngramOrder;
                 (totalLogProb, validNGrams) =
                   scoreNGrams tokens ngramOrder ngramCounts contextCounts;
                 averageLogProb = (if validNGrams > 0
                                   then jdiv totalLogProb (Fin (real validNGrams)) else NInf)
             in perplexityRecord averageLogProb (length tokens))"







section \<open>Emotion analysis: the aggregation shared by both services\<close>

datatype Speaker = Interviewee | Interviewer

text \<open>
  An \<open>EmotionFeatures\<close> object is the list of its entries in insertion order, which is
  the order of \<open>Object.entries\<close> for keys that are emotion names; the keys are distinct.
  The intensities are finite numbers (the interface documents them as \<open>0-1\<close>).
\<close>

type_synonym EmotionFeatures = "(string \<times> real) list"

text \<open>The field \<open>text\<close> of the source is \<open>msgText\<close> here.\<close>

record TranscriptMessage =
  speaker :: Speaker
  msgText :: string
  emotionFeatures :: "EmotionFeatures option"

record DominantEmotion =
  emotion :: string
  averageIntensity :: jsnum
  occurrenceCount :: nat

record EmotionalTrends =
  improving :: bool
  declining :: bool
  stable :: bool

datatype EmotionalState = Confident | Nervous | Calm | Engaged | Uncertain

record BreakdownEntry =
  messageIndex :: nat
  entryText :: string
  emotions :: EmotionFeatures
  confidenceScore :: real
  emotionalState :: EmotionalState

record EmotionAnalysisResult =
  overallConfidence :: jsnum
  averageCalmness :: jsnum
  emotionalStability :: jsnum
  dominantEmotions :: "DominantEmotion list"
  emotionalTrends :: EmotionalTrends
  insights :: "string list"
  recommendations :: "string list"
  detailedBreakdown :: "BreakdownEntry list"

text \<open>\<open>features.key ?? d\<close>.\<close>

definition feature :: "EmotionFeatures \<Rightarrow> string \<Rightarrow> real \<Rightarrow> real" where
  "feature f k d = (case map_of f k of None \<Rightarrow> d | Some v \<Rightarrow> v)"

text \<open>\<open>xs.reduce((a, b) => a + b, 0) / xs.length\<close>: \<open>0 / 0\<close> is \<open>NaN\<close>.\<close>

definition average :: "real list \<Rightarrow> jsnum" where
  "average xs = jdiv (Fin (foldl (\<lambda>a b. a + b) 0 xs)) (Fin (real (length xs)))"

definition stability :: "real list \<Rightarrow> jsnum \<Rightarrow> jsnum" where
  "stability confidenceScores meanConfidence =
     (let variance =
            jdiv (foldl (\<lambda>sum score. jadd sum (jsquare (jsub (Fin score) meanConfidence)))
                        (Fin 0) confidenceScores)
                 (Fin (real (length confidenceScores)))
      in jsub (Fin 1) (jmin (jmul variance (Fin 4)) (Fin 1)))"

text \<open>The body of the loop that fills \<open>emotionMap\<close>, a \<open>Map\<close> in insertion order.\<close>

definition addEmotion ::
  "(string \<times> real \<times> nat) list \<Rightarrow> string \<times> real \<Rightarrow> (string \<times> real \<times> nat) list" where
  "addEmotion emotionMap e =
     (let m = (if map_of emotionMap (fst e) = None
               then AList.update (fst e) (0, 0) emotionMap else emotionMap)
      in case map_of m (fst e) of
           None \<Rightarrow> m
         | Some (totalIntensity, count) \<Rightarrow>
             AList.update (fst e) (totalIntensity + snd e, count + 1) m)"

text \<open>
  \<open>Array.prototype.sort\<close> with a comparator: the sort is stable, and for a consistent
  comparator its result is the one of this insertion sort (\<open>x\<close> goes before the first
  \<open>y\<close> with \<open>cmp(x, y) < 0\<close>).
\<close>

fun insertBy :: "('a \<Rightarrow> 'a \<Rightarrow> jsnum) \<Rightarrow> 'a \<Rightarrow> 'a list \<Rightarrow> 'a list" where
  "insertBy cmp x [] = [x]"
| "insertBy cmp x (y # ys) =
     (if jlt (cmp x y) (Fin 0) then x # y # ys else y # insertBy cmp x ys)"

definition sortBy :: "('a \<Rightarrow> 'a \<Rightarrow> jsnum) \<Rightarrow> 'a list \<Rightarrow> 'a list" where
  "sortBy cmp xs = foldl (\<lambda>sorted x. insertBy cmp x sorted) [] xs"

definition findDominant :: "EmotionFeatures list \<Rightarrow> DominantEmotion list" where
  "findDominant fs =
     (let emotionMap = foldl (\<lambda>m f. foldl addEmotion m f) [] fs
      in take 5
           (sortBy (\<lambda>a b. jsub (averageIntensity b) (averageIntensity a))
              (map (\<lambda>(name, totalIntensity, count).
                      \<lparr>emotion = name,
                       averageIntensity = jdiv (Fin totalIntensity) (Fin (real count)),
                       occurrenceCount = count\<rparr>)
                   emotionMap)))"

text \<open>
  The trend: \<open>slice(0, floor(n / 2))\<close> and \<open>slice(floor(n / 2))\<close> are the two halves of
  the confidence scores.
\<close>

definition analyzeTrends :: "real list \<Rightarrow> EmotionalTrends" where
  "analyzeTrends confidenceScores =
     (let firstHalf = take (length confidenceScores div 2) confidenceScores;
          secondHalf = drop (length confidenceScores div 2) confidenceScores;
          firstHalfAvg = average firstHalf;
          secondHalfAvg = average secondHalf;
          trendDiff = jsub secondHalfAvg firstHalfAvg
      in \<lparr>improving = jgt trendDiff (Fin (1 / 10)),
          declining = jlt trendDiff (Fin (- (1 / 10))),
          stable = jle (jabs trendDiff) (Fin (1 / 10))\<rparr>)"

definition generateInsights :: "jsnum \<Rightarrow> jsnum \<Rightarrow> jsnum \<Rightarrow> EmotionalTrends \<Rightarrow> string list" where
  "generateInsights conf calm stab trends =
     (if jge conf (Fin (7 / 10))
      then [''High confidence level detected throughout the interview'']
      else if jge conf (Fin (5 / 10))
      then [''Moderate confidence level with room for improvement'']
      else [''Low confidence detected - candidate may need more preparation''])
     @ (if jge calm (Fin (7 / 10))
        then [''Candidate maintained good composure during the interview'']
        else if jlt calm (Fin (5 / 10))
        then [''Signs of nervousness or stress detected'']
        else [])
     @ (if jge stab (Fin (7 / 10))
        then [''Emotional state remained stable throughout'']
        else [''Significant emotional fluctuations observed''])
     @ (if improving trends
        then [''Confidence improved as the interview progressed'']
        else if declining trends
        then [''Confidence decreased during the interview'']
        else [])"

definition generateRecommendations ::
  "jsnum \<Rightarrow> jsnum \<Rightarrow> jsnum \<Rightarrow> EmotionalTrends \<Rightarrow> string list" where
  "generateRecommendations conf calm stab trends =
     (if jlt conf (Fin (6 / 10))
      then [''Practice more to build confidence in answering questions''] else [])
     @ (if jlt calm (Fin (6 / 10))
        then [''Work on stress management and relaxation techniques''] else [])
     @ (if jlt stab (Fin (6 / 10))
        then [''Focus on maintaining consistent emotional state''] else [])
     @ (if declining trends
        then [''Prepare for longer interviews to maintain energy and confidence''] else [])"

text \<open>
  The per-message label. The two services differ in the fourth test only, which is the
  parameter \<open>engaged\<close>.
\<close>

definition classify :: "(EmotionFeatures \<Rightarrow> bool) \<Rightarrow> EmotionFeatures \<Rightarrow> EmotionalState" where
  "classify engaged f =
     (let confidence = feature f ''confidence'' 0;
          calmness = feature f ''calmness'' 0;
          nervousness = (case map_of f ''nervousness'' of
                           Some v \<Rightarrow> v
                         | None \<Rightarrow> feature f ''anxiety'' 0)
      in if confidence \<ge> 7 / 10 \<and> nervousness < 3 / 10 then Confident
         else if nervousness \<ge> 5 / 10 \<or> confidence < 4 / 10 then Nervous
         else if calmness \<ge> 7 / 10 then Calm
         else if engaged f then Engaged
         else Uncertain)"

definition breakdownEntry ::
  "(EmotionFeatures \<Rightarrow> bool) \<Rightarrow> nat \<times> string \<times> EmotionFeatures \<Rightarrow> BreakdownEntry" where
  "breakdownEntry engaged e =
     (case e of (index, t, f) \<Rightarrow>
        \<lparr>messageIndex = index + 1,
         entryText = take 100 t @ (if length t > 100 then ''...'' else []),
         emotions = f,
         confidenceScore = feature f ''confidence'' 0,
         emotionalState = classify engaged f\<rparr>)"

text \<open>
  Everything after the early return, on the texts and feature maps of the qualifying
  messages; the two services run the same statements.
\<close>

definition aggregate ::
  "(EmotionFeatures \<Rightarrow> bool) \<Rightarrow> (string \<times> EmotionFeatures) list \<Rightarrow> EmotionAnalysisResult" where
  "aggregate engaged ms =
     (let confidenceScores = map (\<lambda>m. feature (snd m) ''confidence'' 0) ms;
          calmnessScores = map (\<lambda>m. feature (snd m) ''calmness'' 0) ms;
          conf = average confidenceScores;
          calm = average calmnessScores;
          stab = stability confidenceScores conf;
          trends = analyzeTrends confidenceScores
      in \<lparr>overallConfidence = conf,
          averageCalmness = calm,
          emotionalStability = stab,
          dominantEmotions = findDominant (map snd ms),
          emotionalTrends = trends,
          insights = generateInsights conf calm stab trends,
          recommendations = generateRecommendations conf calm stab trends,
          detailedBreakdown = map (breakdownEntry engaged) (enumerate 0 ms)\<rparr>)"

section \<open>Emotion analysis from Hume features\<close>

text \<open>
  The fourth test of the classifier is written
  \<open>interest ?? engagement ?? 0 > 0.6\<close>. The comparison binds tighter than \<open>??\<close>, so the
  condition is \<open>(interest ?? engagement) ?? (0 > 0.6)\<close>: the truthiness of the first
  field present, and \<open>false\<close> when neither is.
\<close>

definition engagedHume :: "EmotionFeatures \<Rightarrow> bool" where
  "engagedHume f =
     (case map_of f ''interest'' of
        Some v \<Rightarrow> v \<noteq> 0
      | None \<Rightarrow> (case map_of f ''engagement'' of
                   Some v \<Rightarrow> v \<noteq> 0
                 | None \<Rightarrow> (0 :: real) > 6 / 10))"

text \<open>The filter of \<open>analyzeEmotions\<close>: an object, empty or not, is truthy.\<close>

definition qualifies :: "TranscriptMessage \<Rightarrow> bool" where
  "qualifies m \<longleftrightarrow> speaker m = Interviewee \<and> emotionFeatures m \<noteq> None"

definition featuresOf :: "TranscriptMessage \<Rightarrow> EmotionFeatures" where
  "featuresOf m = (case emotionFeatures m of Some f \<Rightarrow> f | None \<Rightarrow> [])"

definition analyzeEmotions :: "TranscriptMessage list \<Rightarrow> EmotionAnalysisResult" where
  "analyzeEmotions messages =
     (let intervieweeMessages = filter qualifies messages
      in if length intervieweeMessages = 0
         then \<lparr>overallConfidence = Fin 0,
               averageCalmness = Fin 0,
               emotionalStability = Fin 0,
               dominantEmotions = [],
               emotionalTrends = \<lparr>improving = False, declining = False, stable = True\<rparr>,
               insights = [''No emotional data available for analysis''],
               recommendations =
                 [''Ensure emotion features are captured for interviewee messages''],
               detailedBreakdown = []\<rparr>
         else aggregate engagedHume (map (\<lambda>m. (msgText m, featuresOf m)) intervieweeMessages))"

section \<open>Emotion analysis from text\<close>

text \<open>\<open>String.prototype.includes\<close>.\<close>

fun startsWith :: "string \<Rightarrow> string \<Rightarrow> bool" where
  "startsWith s [] = True"
| "startsWith [] (w # ws) = False"
| "startsWith (c # cs) (w # ws) = (c = w \<and> startsWith cs ws)"

fun strIncludes :: "string \<Rightarrow> string \<Rightarrow> bool" where
  "strIncludes [] word = (word = [])"
| "strIncludes (c # cs) word = (startsWith (c # cs) word \<or> strIncludes cs word)"

text \<open>
  The regular expressions of the service all have the form \<open>/\b(w1|w2|...)\b/i\<close> once
  their nested groups are multiplied out, each \<open>w\<close> a literal of lower-case letters and
  spaces that starts and ends with a letter; such an expression is the list of its
  alternatives, in the order in which the matcher tries them. Matching ignores case, which
  on these literals is a comparison with the lower-cased text.
\<close>

definition optWord :: "char option \<Rightarrow> bool" where
  "optWord c = (case c of None \<Rightarrow> False | Some x \<Rightarrow> isWordChar x)"

text \<open>\<open>\b\<close> between the character before the position and the one at it.\<close>

definition wordBoundary :: "char option \<Rightarrow> char option \<Rightarrow> bool" where
  "wordBoundary prev next \<longleftrightarrow> optWord prev \<noteq> optWord next"

definition headOpt :: "string \<Rightarrow> char option" where
  "headOpt s = (case s of [] \<Rightarrow> None | c # _ \<Rightarrow> Some c)"

definition matchAlt :: "string \<Rightarrow> string \<Rightarrow> bool" where
  "matchAlt s w \<longleftrightarrow>
     w \<noteq> [] \<and> startsWith (toLowerCase s) w \<and>
     wordBoundary (Some (last (take (length w) s))) (headOpt (drop (length w) s))"

text \<open>The length of the match that starts at this position, if there is one.\<close>

definition matchAt :: "string list \<Rightarrow> char option \<Rightarrow> string \<Rightarrow> nat option" where
  "matchAt alts prev s =
     (if wordBoundary prev (headOpt s)
      then (case filter (matchAlt s) alts of [] \<Rightarrow> None | w # _ \<Rightarrow> Some (length w))
      else None)"

text \<open>\<open>regex.test(text)\<close>.\<close>

fun testFrom :: "string list \<Rightarrow> char option \<Rightarrow> string \<Rightarrow> bool" where
  "testFrom alts prev [] = False"
| "testFrom alts prev (c # cs) =
     (matchAt alts prev (c # cs) \<noteq> None \<or> testFrom alts (Some c) cs)"

definition regexTest :: "string list \<Rightarrow> string \<Rightarrow> bool" where
  "regexTest alts s = testFrom alts None s"

text \<open>
  \<open>(text.match(regex) || []).length\<close> for a global expression: the matches found from
  left to right, each search resuming where the previous match ended. \<open>skip\<close> counts the
  characters of the current match still to pass.
\<close>

fun countFrom :: "string list \<Rightarrow> nat \<Rightarrow> char option \<Rightarrow> string \<Rightarrow> nat" where
  "countFrom alts skip prev [] = 0"
| "countFrom alts skip prev (c # cs) =
     (if skip > 0 then countFrom alts (skip - 1) (Some c) cs
      else (case matchAt alts prev (c # cs) of
              None \<Rightarrow> countFrom alts 0 (Some c) cs
            | Some k \<Rightarrow> 1 + countFrom alts (k - 1) (Some c) cs))"

definition regexCount :: "string list \<Rightarrow> string \<Rightarrow> nat" where
  "regexCount alts s = countFrom alts 0 None s"

definition emotionKeywords :: "(string \<times> string list \<times> real) list" where
  "emotionKeywords =
     [(''confidence'',
       [''confident'', ''sure'', ''certain'', ''definitely'', ''absolutely'', ''expertise'',
        ''experience'', ''successful'', ''accomplished'', ''achieved'', ''led'', ''built'',
        ''implemented'', ''designed'', ''developed'', ''expert'', ''proficient'', ''skilled'',
        ''strong'', ''solid'', ''deep'', ''comprehensive'', ''thorough'', ''extensive''],
       1),
      (''nervousness'',
       [''um'', ''uh'', ''well'', ''maybe'', ''perhaps'', ''not sure'', ''uncertain'',
        ''think'', ''guess'', ''probably'', ''might'', ''could'', ''hesitate'', ''stumble'',
        ''unsure'', ''doubt'', ''worry'', ''anxious'', ''nervous'', ''afraid'', ''scared''],
       1),
      (''calmness'',
       [''calm'', ''relaxed'', ''comfortable'', ''at ease'', ''peaceful'', ''steady'',
        ''composed'', ''collected'', ''clear'', ''focused'', ''balanced'', ''stable''],
       8 / 10),
      (''engagement'',
       [''interested'', ''excited'', ''curious'', ''eager'', ''enthusiastic'', ''passionate'',
        ''motivated'', ''inspired'', ''fascinated'', ''engaged'', ''involved'', ''active'',
        ''questions'', ''wonder'', ''explore'', ''learn'', ''discover''],
       9 / 10),
      (''interest'',
       [''interesting'', ''curious'', ''wonder'', ''want to know'', ''would like'',
        ''fascinated'', ''intrigued'', ''attracted'', ''appealing'', ''appeal'', ''drawn''],
       8 / 10),
      (''anxiety'',
       [''anxious'', ''worried'', ''concerned'', ''stressed'', ''pressure'', ''pressure'',
        ''nervous'', ''tense'', ''uneasy'', ''apprehensive'', ''fearful'', ''panicked''],
       1),
      (''enthusiasm'',
       [''excited'', ''enthusiastic'', ''thrilled'', ''eager'', ''passionate'', ''energetic'',
        ''vibrant'', ''dynamic'', ''lively'', ''animated'', ''zealous'', ''ardent''],
       9 / 10)]"

text \<open>The number of the words of a list that the text includes.\<close>

definition countIncluded :: "string \<Rightarrow> string list \<Rightarrow> nat" where
  "countIncluded lowerText ws = length (filter (strIncludes lowerText) ws)"

record Sentiment =
  score :: real
  magnitude :: real

definition analyzeSentiment :: "string \<Rightarrow> Sentiment" where
  "analyzeSentiment str =
     (let lowerText = toLowerCase str;
          positiveScore = countIncluded lowerText
            [''excellent'', ''great'', ''good'', ''amazing'', ''wonderful'', ''fantastic'',
             ''successful'', ''achieved'', ''accomplished'', ''improved'', ''increased'',
             ''solved'', ''optimized'', ''enhanced'', ''delivered'', ''exceeded''];
          negativeScore = countIncluded lowerText
            [''difficult'', ''challenging'', ''problem'', ''issue'', ''failed'', ''struggled'',
             ''hard'', ''tough'', ''complex'', ''complicated'', ''error'', ''bug'', ''broken''];
          uncertaintyScore = countIncluded lowerText
            [''maybe'', ''perhaps'', ''might'', ''could'', ''possibly'', ''probably'',
             ''think'', ''guess'', ''not sure'', ''uncertain'', ''unsure''];
          totalWords = positiveScore + negativeScore + uncertaintyScore
      in if totalWords = 0 then \<lparr>score = 0, magnitude = 0\<rparr>
         else \<lparr>score = (real positiveScore - real negativeScore - real uncertaintyScore * (5 / 10))
                       / real (max totalWords 1),
               magnitude = min (real totalWords / 10) 1\<rparr>)"

text \<open>\<open>emotions.key || d\<close>: the default also replaces a stored \<open>0\<close>.\<close>

definition orElse :: "EmotionFeatures \<Rightarrow> string \<Rightarrow> real \<Rightarrow> real" where
  "orElse e k d = (case map_of e k of None \<Rightarrow> d | Some v \<Rightarrow> if v = 0 then d else v)"

definition questionWords :: "string list" where
  "questionWords =
     [''what'', ''how'', ''why'', ''when'', ''where'', ''can'', ''could'', ''would'', ''should'']"

definition confidentPatterns :: "string list list" where
  "confidentPatterns =
     [map (\<lambda>v. ''i '' @ v)
        [''have'', ''built'', ''created'', ''designed'', ''implemented'', ''led'', ''achieved'',
         ''accomplished''],
      concat (map (\<lambda>a. concat (map (\<lambda>b. map (\<lambda>c. ''i '' @ a @ '' '' @ b @ '' '' @ c)
                                            [''expert'', ''senior'', ''lead'', ''experienced''])
                                 [''an'', ''a'']))
                  [''am'', ''was'']),
      [''years of experience'', ''year of experience''],
      [''successfully'', ''effectively'', ''efficiently'']]"

definition fillerWords :: "string list" where
  "fillerWords = [''um'', ''uh'', ''well'', ''like'', ''you know'']"

definition extractEmotions :: "string \<Rightarrow> EmotionFeatures" where
  "extractEmotions str =
     (let lowerText = toLowerCase str;
          e1 = foldl (\<lambda>emotions (name, ws, weight).
                        let count = countIncluded lowerText ws
                        in if count > 0
                           then AList.update name
                                  (min ((real count / real (length ws)) * weight) 1) emotions
                           else emotions)
                     [] emotionKeywords;
          sentiment = analyzeSentiment str;
          e2 = (if score sentiment > 3 / 10
                then
                  let a = AList.update ''confidence''
                            (max (orElse e1 ''confidence'' 0) (6 / 10 + score sentiment * (3 / 10))) e1
                  in AList.update ''calmness''
                       (max (orElse a ''calmness'' 0) (5 / 10 + score sentiment * (2 / 10))) a
                else if score sentiment < - (3 / 10)
                then
                  let a = AList.update ''nervousness''
                            (max (orElse e1 ''nervousness'' 0)
                                 (5 / 10 + \<bar>score sentiment\<bar> * (3 / 10))) e1;
                      b = AList.update ''anxiety''
                            (max (orElse a ''anxiety'' 0)
                                 (4 / 10 + \<bar>score sentiment\<bar> * (2 / 10))) a
                  in AList.update ''confidence''
                       (min (orElse b ''confidence'' (5 / 10))
                            (4 / 10 - \<bar>score sentiment\<bar> * (2 / 10))) b
                else e1);
          e3 = (if regexTest questionWords str
                then
                  let a = AList.update ''engagement'' (max (orElse e2 ''engagement'' 0) (6 / 10)) e2
                  in AList.update ''interest'' (max (orElse a ''interest'' 0) (5 / 10)) a
                else e2);
          e4 = foldl (\<lambda>emotions pattern.
                        if regexTest pattern str
                        then AList.update ''confidence''
                               (max (orElse emotions ''confidence'' 0) (7 / 10)) emotions
                        else emotions)
                     e3 confidentPatterns;
          fillerWordCount = regexCount fillerWords str;
          e5 = (if fillerWordCount > 0
                then
                  let a = AList.update ''nervousness''
                            (max (orElse e4 ''nervousness'' 0)
                                 (min (real fillerWordCount * (2 / 10)) (8 / 10))) e4
                  in AList.update ''confidence''
                       (max 0 (orElse a ''confidence'' (5 / 10) - real fillerWordCount * (1 / 10))) a
                else e4);
          e6 = map (\<lambda>(key, v). (key, min (max v 0) 1)) e5
      in if length e6 = 0
         then AList.update ''calmness'' (5 / 10) (AList.update ''confidence'' (5 / 10) e6)
         else e6)"

text \<open>The fourth test of the classifier: \<open>(interest ?? engagement ?? 0) > 0.6\<close>.\<close>

definition engagedText :: "EmotionFeatures \<Rightarrow> bool" where
  "engagedText f =
     ((case map_of f ''interest'' of
         Some v \<Rightarrow> v
       | None \<Rightarrow> feature f ''engagement'' 0) > 6 / 10)"

definition analyzeTextEmotions :: "TranscriptMessage list \<Rightarrow> EmotionAnalysisResult" where
  "analyzeTextEmotions messages =
     (let intervieweeMessages = filter (\<lambda>m. speaker m = Interviewee) messages
      in if length intervieweeMessages = 0
         then \<lparr>overallConfidence = Fin 0,
               averageCalmness = Fin 0,
               emotionalStability = Fin 0,
               dominantEmotions = [],
               emotionalTrends = \<lparr>improving = False, declining = False, stable = True\<rparr>,
               insights = [''No interviewee messages available for analysis''],
               recommendations =
                 [''Ensure interview transcript contains interviewee responses''],
               detailedBreakdown = []\<rparr>
         else aggregate engagedText
                (map (\<lambda>msg. (msgText msg, extractEmotions (msgText msg))) intervieweeMessages))"

section \<open>Reference definitions for the properties\<close>

text \<open>
  The recurrence of the longest common subsequence on the lengths \<open>i\<close> and \<open>j\<close> of two
  prefixes, which the table of \<open>lcsLength\<close> tabulates.
\<close>

fun lcsRef :: "string list \<Rightarrow> string list \<Rightarrow> nat \<Rightarrow> nat \<Rightarrow> nat" where
  "lcsRef a b 0 j = 0"
| "lcsRef a b (Suc i) 0 = 0"
| "lcsRef a b (Suc i) (Suc j) =
     (if a ! i = b ! j then lcsRef a b i j + 1
      else max (lcsRef a b i (Suc j)) (lcsRef a b (Suc i) j))"

text \<open>
  The loop invariant of \<open>lcsLength\<close>: the table keeps its shape and its column \<open>0\<close>, the
  rows before \<open>i\<close> are filled, and so is row \<open>i\<close> up to column \<open>j\<close>.
\<close>

definition lcsInv :: "string list \<Rightarrow> string list \<Rightarrow> nat list list \<Rightarrow> nat \<Rightarrow> nat \<Rightarrow> bool" where
  "lcsInv a b dp i j \<longleftrightarrow>
     length dp = length a + 1 \<and>
     (\<forall>r \<le> length a. length (dp ! r) = length b + 1) \<and>
     (\<forall>r \<le> length a. dp ! r ! 0 = 0) \<and>
     (\<forall>r < i. \<forall>c \<le> length b. dp ! r ! c = lcsRef a b r c) \<and>
     (\<forall>c \<le> j. dp ! i ! c = lcsRef a b i c)"

definition unitInterval :: "real \<Rightarrow> bool" where
  "unitInterval x \<longleftrightarrow> 0 \<le> x \<and> x \<le> 1"

definition prfBounded :: "PRF \<Rightarrow> bool" where
  "prfBounded q \<longleftrightarrow>
     unitInterval (precision q) \<and> unitInterval (recall q) \<and> unitInterval (f1 q)"

definition rougeBounded :: "ROUGEScores \<Rightarrow> bool" where
  "rougeBounded s \<longleftrightarrow> prfBounded (rouge1 s) \<and> prfBounded (rouge2 s) \<and> prfBounded (rougeL s)"

definition spaceFree :: "string \<Rightarrow> bool" where
  "spaceFree w \<longleftrightarrow> CHR '' '' \<notin> set w"

text \<open>
  The smoothed n-gram model in the words of the specification, on token sequences rather
  than joined strings: the n-grams of a text are its windows of \<open>n\<close> consecutive tokens,
  the context of an n-gram is its first \<open>n - 1\<close> tokens, an n-gram is counted over the
  n-grams of the text and a context over their contexts, and the vocabulary size is the
  number of distinct n-grams.
\<close>

definition ngramsOf :: "string list \<Rightarrow> nat \<Rightarrow> string list list" where
  "ngramsOf ts n = map (\<lambda>i. take n (drop i ts)) [0..<Suc (length ts) - n]"

definition contextOf :: "nat \<Rightarrow> string list \<Rightarrow> string list" where
  "contextOf n g = take (n - 1) g"

definition smoothedProb :: "string list \<Rightarrow> nat \<Rightarrow> string list \<Rightarrow> real" where
  "smoothedProb ts n g =
     real (count_list (ngramsOf ts n) g + 1)
     / real (count_list (map (contextOf n) (ngramsOf ts n)) (contextOf n g)
             + card (set (ngramsOf ts n)) + 1)"

definition meanLogProb :: "string list \<Rightarrow> nat \<Rightarrow> real" where
  "meanLogProb ts n =
     (\<Sum>g\<leftarrow>ngramsOf ts n. ln (smoothedProb ts n g)) / real (length (ngramsOf ts n))"




text \<open>
  The per-message label in the words of the specification: the fourth test compares the
  interest value, which falls back to engagement and then to \<open>0\<close>, with \<open>0.6\<close>.
\<close>

definition stateBySpec :: "EmotionFeatures \<Rightarrow> EmotionalState" where
  "stateBySpec f =
     (let confidence = (case map_of f ''confidence'' of Some v \<Rightarrow> v | None \<Rightarrow> 0);
          calmness = (case map_of f ''calmness'' of Some v \<Rightarrow> v | None \<Rightarrow> 0);
          nervousness = (case map_of f ''nervousness'' of
                           Some v \<Rightarrow> v
                         | None \<Rightarrow> (case map_of f ''anxiety'' of Some v \<Rightarrow> v | None \<Rightarrow> 0));
          interest = (case map_of f ''interest'' of
                        Some v \<Rightarrow> v
                      | None \<Rightarrow> (case map_of f ''engagement'' of Some v \<Rightarrow> v | None \<Rightarrow> 0))
      in if confidence \<ge> 7 / 10 \<and> nervousness < 3 / 10 then Confident
         else if nervousness \<ge> 5 / 10 \<or> confidence < 4 / 10 then Nervous
         else if calmness \<ge> 7 / 10 then Calm
         else if interest > 6 / 10 then Engaged
         else Uncertain)"

definition exactlyOne :: "EmotionalTrends \<Rightarrow> bool" where
  "exactlyOne t \<longleftrightarrow>
     (improving t \<and> \<not> declining t \<and> \<not> stable t) \<or>
     (\<not> improving t \<and> declining t \<and> \<not> stable t) \<or>
     (\<not> improving t \<and> \<not> declining t \<and> stable t)"

text \<open>
  The feature maps of the interviewee messages that carry one, empty or not, in the order
  of the messages.
\<close>

text \<open>
  A qualifying message of the feature-based service in the words of the specification: an
  interviewee message with a feature map that is present and not empty.
\<close>

definition qualifiesBySpec :: "TranscriptMessage \<Rightarrow> bool" where
  "qualifiesBySpec m \<longleftrightarrow>
     speaker m = Interviewee \<and>
     (case emotionFeatures m of None \<Rightarrow> False | Some f \<Rightarrow> f \<noteq> [])"

definition presentFeatures :: "TranscriptMessage list \<Rightarrow> EmotionFeatures list" where
  "presentFeatures messages =
     List.map_filter (\<lambda>m. if speaker m = Interviewee then emotionFeatures m else None) messages"

section \<open>The longest common subsequence\<close>

lemma lcsRef_zero_right [simp]: "lcsRef a b i 0 = 0"
  by (cases i) simp_all

lemma lcsRef_sym: "lcsRef a b i j = lcsRef b a j i"
  by (induction a b i j rule: lcsRef.induct) (auto simp: max.commute)

lemma lcsRef_le: "lcsRef a b i j \<le> min i j"
  by (induction a b i j rule: lcsRef.induct) auto

lemma lcsRef_self: "lcsRef a a i i = i"
  by (induction i) auto

lemma lcsCell_inv:
  assumes "lcsInv a b dp i j" "Suc j \<le> length b" "1 \<le> i" "i \<le> length a"
  shows "lcsInv a b (lcsCell a b i dp (Suc j)) i (Suc j)"
proof -
  obtain i' where i': "i = Suc i'" using assms(3) by (cases i) auto
  from assms show ?thesis
    unfolding lcsInv_def lcsCell_def i'
    by (auto simp: nth_list_update le_Suc_eq)
qed

lemma lcsRow_inv_aux:
  assumes "lcsInv a b dp i 0" "1 \<le> i" "i \<le> length a"
  shows "k \<le> length b \<Longrightarrow> lcsInv a b (foldl (lcsCell a b i) dp [1..<Suc k]) i k"
proof (induction k)
  case 0
  then show ?case using assms by simp
next
  case (Suc k)
  then have "lcsInv a b (foldl (lcsCell a b i) dp [1..<Suc k]) i k" by simp
  from lcsCell_inv[OF this _ assms(2,3)] Suc.prems show ?case by simp
qed

lemma lcsRow_inv:
  assumes "lcsInv a b dp i (length b)" "Suc i \<le> length a"
  shows "lcsInv a b (lcsRow a b dp (Suc i)) (Suc i) (length b)"
proof -
  have "lcsInv a b dp (Suc i) 0"
    using assms unfolding lcsInv_def by (auto simp: less_Suc_eq)
  from lcsRow_inv_aux[OF this _ assms(2), of "length b"] show ?thesis
    by (simp add: lcsRow_def)
qed

lemma lcsTable_inv_aux:
  "k \<le> length a \<Longrightarrow>
   lcsInv a b
     (foldl (lcsRow a b) (replicate (length a + 1) (replicate (length b + 1) 0)) [1..<Suc k])
     k (length b)"
proof (induction k)
  case 0
  then show ?case by (auto simp: lcsInv_def simp del: replicate_Suc)
next
  case (Suc k)
  then have "lcsInv a b
      (foldl (lcsRow a b) (replicate (length a + 1) (replicate (length b + 1) 0)) [1..<Suc k])
      k (length b)"
    by simp
  from lcsRow_inv[OF this] Suc.prems show ?case by simp
qed

lemma lcsLength_ref: "lcsLength a b = lcsRef a b (length a) (length b)"
  using lcsTable_inv_aux[of "length a" a b]
  by (simp add: lcsLength_def lcsTable_def lcsInv_def)

lemma lcsLength_le: "lcsLength a b \<le> length a" "lcsLength a b \<le> length b"
  using lcsRef_le[of a b "length a" "length b"] by (simp_all add: lcsLength_ref)

lemma lcsLength_self: "lcsLength a a = length a"
  by (simp add: lcsLength_ref lcsRef_self)

text \<open>
  Claim C8. For every pair of token sequences \<open>A\<close> and \<open>B\<close>, \<open>lcsLength(A, B)\<close> equals
  \<open>lcsLength(B, A)\<close>: the table filled for \<open>(A, B)\<close> and the one filled for \<open>(B, A)\<close>
  end in the same number.
\<close>

theorem lcsLength_symmetric: "lcsLength A B = lcsLength B A"
  by (simp add: lcsLength_ref lcsRef_sym[of A B])

section \<open>The tokenizer\<close>

lemma trim_empty_iff: "trim s = [] \<longleftrightarrow> (\<forall>c \<in> set s. isSpaceChar c)"
proof
  assume "trim s = []"
  then have all: "\<forall>c \<in> set (dropWhile isSpaceChar s). isSpaceChar c"
    by (simp add: trim_def dropWhile_eq_Nil_conv)
  have "dropWhile isSpaceChar s = []"
  proof (rule ccontr)
    assume ne: "dropWhile isSpaceChar s \<noteq> []"
    then have "\<not> isSpaceChar (hd (dropWhile isSpaceChar s))" by (rule hd_dropWhile)
    moreover have "hd (dropWhile isSpaceChar s) \<in> set (dropWhile isSpaceChar s)"
      using ne by simp
    ultimately show False using all by blast
  qed
  then show "\<forall>c \<in> set s. isSpaceChar c" by (simp add: dropWhile_eq_Nil_conv)
next
  assume "\<forall>c \<in> set s. isSpaceChar c"
  then show "trim s = []"
    by (auto simp: trim_def dropWhile_eq_Nil_conv dest: set_dropWhileD)
qed

lemma toLowerChar_space: "isSpaceChar c \<Longrightarrow> toLowerChar c = c"
  by (auto simp: isSpaceChar_def toLowerChar_def Let_def)

lemma splitWs_spaces:
  "\<forall>c \<in> set s. isSpaceChar c \<Longrightarrow> set (splitWs [] b s) \<subseteq> {[]}"
  by (induction s arbitrary: b) auto

lemma tokenize_blank:
  assumes "trim s = []"
  shows "tokenize s = []"
proof -
  have sp: "\<forall>c \<in> set s. isSpaceChar c" using assms by (simp add: trim_empty_iff)
  then have "\<forall>c \<in> set (replacePunct (toLowerCase s)). isSpaceChar c"
    by (auto simp: replacePunct_def toLowerCase_def toLowerChar_space)
  then have "set (splitWs [] False (replacePunct (toLowerCase s))) \<subseteq> {[]}"
    by (rule splitWs_spaces)
  then show ?thesis
    by (auto simp: tokenize_def filter_empty_conv)
qed

lemma isSpaceChar_space: "isSpaceChar CHR '' ''"
  by (simp add: isSpaceChar_def)

lemma splitWs_no_space:
  "\<forall>c \<in> set cur. \<not> isSpaceChar c \<Longrightarrow>
   \<forall>p \<in> set (splitWs cur b s). \<forall>c \<in> set p. \<not> isSpaceChar c"
proof (induction s arbitrary: cur b)
  case Nil
  then show ?case by simp
next
  case (Cons a s)
  show ?case
  proof (cases "isSpaceChar a")
    case True
    have 1: "\<forall>p \<in> set (splitWs cur True s). \<forall>c \<in> set p. \<not> isSpaceChar c"
      using Cons.IH[OF Cons.prems] .
    have 2: "\<forall>p \<in> set (splitWs [] True s). \<forall>c \<in> set p. \<not> isSpaceChar c"
      using Cons.IH[of "[]" True] by simp
    show ?thesis using True 1 2 Cons.prems by auto
  next
    case False
    then have "\<forall>c \<in> set (a # cur). \<not> isSpaceChar c" using Cons.prems by simp
    from Cons.IH[OF this] show ?thesis using False by simp
  qed
qed

lemma tokenize_spaceFree: "w \<in> set (tokenize s) \<Longrightarrow> spaceFree w"
proof -
  assume "w \<in> set (tokenize s)"
  then have "w \<in> set (splitWs [] False (replacePunct (toLowerCase s)))"
    by (simp add: tokenize_def)
  moreover have "\<forall>p \<in> set (splitWs [] False (replacePunct (toLowerCase s))).
                   \<forall>c \<in> set p. \<not> isSpaceChar c"
    by (rule splitWs_no_space) simp
  ultimately have "\<forall>c \<in> set w. \<not> isSpaceChar c" by blast
  then show "spaceFree w" using isSpaceChar_space by (auto simp: spaceFree_def)
qed

section \<open>ROUGE\<close>

lemma harmonic_unit:
  fixes p r :: real
  assumes "0 \<le> p" "p \<le> 1" "0 \<le> r" "r \<le> 1"
  shows "unitInterval (if p + r > 0 then (2 * p * r) / (p + r) else 0)"
proof (cases "p + r > 0")
  case True
  have "p * r \<le> p * 1" using assms by (intro mult_left_mono) auto
  moreover have "p * r \<le> 1 * r" using assms by (intro mult_right_mono) auto
  ultimately have "2 * p * r \<le> p + r" by simp
  moreover have "0 \<le> 2 * p * r" using assms by simp
  ultimately show ?thesis using True by (simp add: unitInterval_def)
next
  case False
  then show ?thesis by (simp add: unitInterval_def)
qed

lemma ratio_unit: "a \<le> b \<Longrightarrow> unitInterval (real a / real b)"
  by (cases "b = 0") (auto simp: unitInterval_def)

lemma matches_le_reference:
  "length (filter (\<lambda>g. g \<in> set (remdups R)) (remdups C)) \<le> length (remdups R)"
proof -
  have "distinct (filter (\<lambda>g. g \<in> set (remdups R)) (remdups C))"
    by simp
  then have "length (filter (\<lambda>g. g \<in> set (remdups R)) (remdups C))
             = card (set (filter (\<lambda>g. g \<in> set (remdups R)) (remdups C)))"
    by (rule distinct_card[symmetric])
  also have "\<dots> \<le> card (set R)"
    by (intro card_mono) auto
  also have "\<dots> = length (remdups R)"
    by (simp add: length_remdups_card_conv)
  finally show ?thesis .
qed

lemma prf_bounded: "prfBounded (calculatePrecisionRecallF1 C R)"
proof (cases "length R = 0")
  case True
  then show ?thesis
    by (simp add: calculatePrecisionRecallF1_def prfBounded_def unitInterval_def)
next
  case False
  define m where "m = length (filter (\<lambda>g. g \<in> set (remdups R)) (remdups C))"
  define p where "p = (if length (remdups C) > 0 then real m / real (length (remdups C)) else 0)"
  define r where "r = real m / real (length (remdups R))"
  have mc: "m \<le> length (remdups C)" unfolding m_def by simp
  have mr: "m \<le> length (remdups R)" unfolding m_def by (rule matches_le_reference)
  have up: "unitInterval p"
    unfolding p_def using ratio_unit[OF mc] by (simp add: unitInterval_def)
  have ur: "unitInterval r" unfolding r_def by (rule ratio_unit[OF mr])
  have uf: "unitInterval (if p + r > 0 then (2 * p * r) / (p + r) else 0)"
    using up ur by (intro harmonic_unit) (simp_all add: unitInterval_def)
  have "calculatePrecisionRecallF1 C R =
        \<lparr>precision = p, recall = r, f1 = (if p + r > 0 then (2 * p * r) / (p + r) else 0)\<rparr>"
    using False by (simp add: calculatePrecisionRecallF1_def Let_def m_def p_def r_def)
  then show ?thesis using up ur uf by (simp add: prfBounded_def)
qed

lemma rougeStep_bounded:
  assumes "rougeBounded best"
  shows "rougeBounded (rougeStep ct cu cb best reference)"
proof -
  define rt where "rt = tokenize reference"
  define lp where "lp = (if length ct > 0 then real (lcsLength ct rt) / real (length ct) else 0)"
  define lr where "lr = (if length rt > 0 then real (lcsLength ct rt) / real (length rt) else 0)"
  define lf where "lf = (if lp + lr > 0 then (2 * lp * lr) / (lp + lr) else 0)"
  have ulp: "unitInterval lp" unfolding lp_def
    using ratio_unit[OF lcsLength_le(1)[of ct rt]] by (simp add: unitInterval_def)
  have ulr: "unitInterval lr" unfolding lr_def
    using ratio_unit[OF lcsLength_le(2)[of ct rt]] by (simp add: unitInterval_def)
  have ulf: "unitInterval lf" unfolding lf_def
    using ulp ulr by (intro harmonic_unit) (simp_all add: unitInterval_def)
  have L: "prfBounded \<lparr>precision = lp, recall = lr, f1 = lf\<rparr>"
    using ulp ulr ulf by (simp add: prfBounded_def)
  have "rougeL (rougeStep ct cu cb best reference) =
          (if lf > f1 (rougeL best) then \<lparr>precision = lp, recall = lr, f1 = lf\<rparr>
           else rougeL best)"
    by (simp add: rougeStep_def Let_def lp_def lr_def lf_def rt_def)
  then have 3: "prfBounded (rougeL (rougeStep ct cu cb best reference))"
    using L assms by (simp add: rougeBounded_def)
  have 1: "prfBounded (rouge1 (rougeStep ct cu cb best reference))"
    using assms prf_bounded by (simp add: rougeStep_def Let_def rougeBounded_def)
  have 2: "prfBounded (rouge2 (rougeStep ct cu cb best reference))"
    using assms prf_bounded by (simp add: rougeStep_def Let_def rougeBounded_def)
  from 1 2 3 show ?thesis by (simp add: rougeBounded_def)
qed

lemma rougeFold_bounded:
  "rougeBounded best \<Longrightarrow> rougeBounded (foldl (rougeStep ct cu cb) best refs)"
  by (induction refs arbitrary: best) (simp_all add: rougeStep_bounded)

lemma rouge_zero_bounded:
  "rougeBounded \<lparr>rouge1 = \<lparr>precision = 0, recall = 0, f1 = 0\<rparr>,
                 rouge2 = \<lparr>precision = 0, recall = 0, f1 = 0\<rparr>,
                 rougeL = \<lparr>precision = 0, recall = 0, f1 = 0\<rparr>\<rparr>"
  by (simp add: rougeBounded_def prfBounded_def unitInterval_def)

text \<open>
  Claim C7. For every candidate string and every reference input, a single string or a
  sequence of strings, each of the nine numbers returned by \<open>calculateROUGE\<close> (precision,
  recall and f1 of \<open>rouge1\<close>, \<open>rouge2\<close> and \<open>rougeL\<close>) lies in the closed interval from
  \<open>0\<close> to \<open>1\<close>.
\<close>

theorem calculateROUGE_bounds:
  "unitInterval (precision (rouge1 (calculateROUGE candidate references))) \<and>
   unitInterval (recall (rouge1 (calculateROUGE candidate references))) \<and>
   unitInterval (f1 (rouge1 (calculateROUGE candidate references))) \<and>
   unitInterval (precision (rouge2 (calculateROUGE candidate references))) \<and>
   unitInterval (recall (rouge2 (calculateROUGE candidate references))) \<and>
   unitInterval (f1 (rouge2 (calculateROUGE candidate references))) \<and>
   unitInterval (precision (rougeL (calculateROUGE candidate references))) \<and>
   unitInterval (recall (rougeL (calculateROUGE candidate references))) \<and>
   unitInterval (f1 (rougeL (calculateROUGE candidate references)))"
proof -
  have "rougeBounded (calculateROUGE candidate references)"
    unfolding calculateROUGE_def Let_def
    using rouge_zero_bounded rougeFold_bounded[OF rouge_zero_bounded] by simp
  then show ?thesis by (simp add: rougeBounded_def prfBounded_def)
qed

lemma length_generateNGrams:
  "length (generateNGrams tokens n) = nat (int (length tokens) - n + 1)"
  by (simp add: generateNGrams_def)

lemma prf_self:
  assumes "g \<noteq> []"
  shows "calculatePrecisionRecallF1 g g = \<lparr>precision = 1, recall = 1, f1 = 1\<rparr>"
proof -
  have "filter (\<lambda>x. x \<in> set (remdups g)) (remdups g) = remdups g"
    by (simp add: filter_id_conv)
  moreover have "length (remdups g) > 0" using assms by simp
  ultimately show ?thesis using assms
    by (simp add: calculatePrecisionRecallF1_def Let_def)
qed

text \<open>
  Claim C6. For every string \<open>X\<close> that is non-empty and tokenizes to at least two
  distinct words, \<open>calculateROUGE(X, X)\<close> returns \<open>f1 = 1\<close> for \<open>rouge1\<close>, \<open>rouge2\<close> and
  \<open>rougeL\<close>. (A string with a token is not blank, so the hypothesis on the tokens is the
  only one.)
\<close>

theorem calculateROUGE_identity:
  assumes "2 \<le> card (set (tokenize X))"
  shows "f1 (rouge1 (calculateROUGE X (Single X))) = 1 \<and>
         f1 (rouge2 (calculateROUGE X (Single X))) = 1 \<and>
         f1 (rougeL (calculateROUGE X (Single X))) = 1"
proof -
  have "card (set (tokenize X)) \<le> length (tokenize X)" by (rule card_length)
  then have len: "2 \<le> length (tokenize X)" using assms by simp
  then have ne: "tokenize X \<noteq> []" by auto
  then have nb: "length (trim X) \<noteq> 0" using tokenize_blank[of X] by auto
  have "0 < length (generateNGrams (tokenize X) 1)"
    using len ne by (simp add: length_generateNGrams)
  then have u: "generateNGrams (tokenize X) 1 \<noteq> []" by auto
  have "0 < length (generateNGrams (tokenize X) 2)"
    using len ne by (simp add: length_generateNGrams)
  then have b: "generateNGrams (tokenize X) 2 \<noteq> []" by auto
  have lt: "0 < length (tokenize X)" using ne by simp
  show ?thesis
    using nb lt
    by (simp add: calculateROUGE_def rougeStep_def Let_def prf_self[OF u] prf_self[OF b]
        lcsLength_self)
qed

theorem calculateROUGE_identity_witness:
  "2 \<le> card (set (tokenize ''the cat'')) \<and>
   f1 (rouge1 (calculateROUGE ''the cat'' (Single ''the cat''))) = 1 \<and>
   f1 (rouge2 (calculateROUGE ''the cat'' (Single ''the cat''))) = 1 \<and>
   f1 (rougeL (calculateROUGE ''the cat'' (Single ''the cat''))) = 1"
proof -
  have t: "tokenize ''the cat'' = [''the'', ''cat'']" by code_simp
  have h: "2 \<le> card (set (tokenize ''the cat''))" unfolding t by simp
  from h calculateROUGE_identity[OF h] show ?thesis by simp
qed

section \<open>Perplexity\<close>

lemma getCount_increment:
  "getCount (increment m k) k' = (if k' = k then getCount m k + 1 else getCount m k')"
  by (simp add: getCount_def increment_def update_conv')

lemma getCount_foldl_increment:
  "getCount (foldl increment m ks) k = getCount m k + count_list ks k"
  by (induction ks arbitrary: m) (simp_all add: getCount_increment)

lemma keys_increment: "fst ` set (increment m k) = insert k (fst ` set m)"
  by (simp add: increment_def dom_update)

lemma distinct_increment: "distinct (map fst m) \<Longrightarrow> distinct (map fst (increment m k))"
  by (simp add: increment_def distinct_update)

lemma keys_foldl_increment: "fst ` set (foldl increment m ks) = fst ` set m \<union> set ks"
  by (induction ks arbitrary: m) (auto simp: keys_increment)

lemma distinct_foldl_increment:
  "distinct (map fst m) \<Longrightarrow> distinct (map fst (foldl increment m ks))"
  by (induction ks arbitrary: m) (simp_all add: distinct_increment)

lemma size_foldl_increment: "length (foldl increment [] ks) = card (set ks)"
proof -
  have "distinct (map fst (foldl increment [] ks))"
    by (rule distinct_foldl_increment) simp
  then have "card (set (map fst (foldl increment [] ks))) = length (map fst (foldl increment [] ks))"
    by (rule distinct_card)
  then show ?thesis using keys_foldl_increment[of "[]" ks] by simp
qed

lemma getCount_counts: "getCount (foldl increment [] ks) k = count_list ks k"
proof -
  have "getCount [] k = 0" by (simp add: getCount_def)
  then show ?thesis by (simp add: getCount_foldl_increment)
qed

lemma foldl_jadd_Fin:
  assumes "\<forall>x \<in> set xs. h x = Fin (r x)"
  shows "foldl (\<lambda>t x. jadd t (h x)) (Fin a) xs = Fin (a + (\<Sum>x\<leftarrow>xs. r x))"
  using assms by (induction xs arbitrary: a) (simp_all add: add.assoc)

lemma foldl_scored:
  assumes "\<forall>x \<in> set xs. h x = Fin (r x)"
  shows "foldl (\<lambda>(t, v) x. (jadd t (h x), v + 1)) (Fin a, k) xs
         = (Fin (a + (\<Sum>x\<leftarrow>xs. r x)), k + length xs)"
  using assms by (induction xs arbitrary: a k) (simp_all add: add.assoc)

lemma foldl_pair:
  "foldl (\<lambda>(a, b) x. (F a x, G b x)) (a0, b0) xs = (foldl F a0 xs, foldl G b0 xs)"
  by (induction xs arbitrary: a0 b0) simp_all

lemma jlog_pos: "0 < x \<Longrightarrow> jlog (Fin x) = Fin (ln x)"
  by simp

lemma jlog_ratio:
  assumes "0 < a" "0 < b"
  shows "jlog (jdiv (Fin a) (Fin b)) = Fin (ln (a / b))"
proof -
  have "0 < a / b" using assms by simp
  then have "jlog (Fin (a / b)) = Fin (ln (a / b))" by (rule jlog_pos)
  moreover have "jdiv (Fin a) (Fin b) = Fin (a / b)" using assms by simp
  ultimately show ?thesis by (simp only:)
qed

lemma perplexityRecord_Fin:
  "perplexityRecord (Fin a) k =
     \<lparr>perplexity = Fin (exp (- a)), averageLogProbability = Fin a, tokenCount = k\<rparr>"
  by (simp add: perplexityRecord_def)

lemma unigram_value:
  assumes "tokens \<noteq> []"
  shows "calculateUnigramPerplexity tokens =
         perplexityRecord
           (Fin ((\<Sum>t\<leftarrow>tokens. ln (real (count_list tokens t + 1)
                                      / real (length tokens + card (set tokens) + 1)))
                 / real (length tokens)))
           (length tokens)"
proof -
  let ?h = "\<lambda>token. jlog (jdiv (Fin (real (getCount (foldl increment [] tokens) token + 1)))
                   (Fin (real (length tokens + length (foldl increment [] tokens) + 1))))"
  let ?r = "\<lambda>t. ln (real (count_list tokens t + 1) / real (length tokens + card (set tokens) + 1))"
  have "\<forall>x \<in> set tokens. ?h x = Fin (?r x)"
    by (simp add: getCount_counts size_foldl_increment jlog_ratio del: jlog.simps jdiv.simps)
  from foldl_jadd_Fin[OF this, of 0]
  have "foldl (\<lambda>t x. jadd t (?h x)) (Fin 0) tokens = Fin (\<Sum>x\<leftarrow>tokens. ?r x)" by simp
  then show ?thesis using assms
    by (simp add: calculateUnigramPerplexity_def Let_def)
qed

lemma upto_as_upt: "[0..int k - 1] = map int [0..<k]"
proof (induction k)
  case 0
  then show ?case by simp
next
  case (Suc k)
  have "[0..int (Suc k) - 1] = [0..int k - 1] @ [int k]"
    using upto_rec2[of 0 "int k"] by simp
  then show ?case using Suc by simp
qed

lemma jsSlice_window:
  assumes "i + n \<le> length xs"
  shows "jsSlice xs (int i) (int i + int n) = take n (drop i xs)"
  using assms by (simp add: jsSlice_def Let_def min_def)

lemma append_sep_eq:
  assumes "c \<notin> set w" "c \<notin> set v" "w @ c # r = v @ c # s"
  shows "w = v \<and> r = s"
  using assms
proof (induction w arbitrary: v)
  case Nil
  then show ?case by (cases v) auto
next
  case (Cons a w)
  then show ?case by (cases v) auto
qed

lemma joinSp_inj:
  assumes "length xs = length ys"
    and "\<forall>w \<in> set xs. spaceFree w" and "\<forall>w \<in> set ys. spaceFree w"
    and "joinSp xs = joinSp ys"
  shows "xs = ys"
  using assms
proof (induction xs ys rule: list_induct2)
  case Nil
  then show ?case by simp
next
  case (Cons x xs y ys)
  show ?case
  proof (cases xs)
    case Nil
    then show ?thesis using Cons by simp
  next
    case xs: (Cons x2 xs2)
    then obtain y2 ys2 where ys: "ys = y2 # ys2" using Cons.hyps by (cases ys) auto
    have "x @ CHR '' '' # joinSp xs = y @ CHR '' '' # joinSp ys"
      using Cons.prems(3) xs ys by simp
    moreover have "CHR '' '' \<notin> set x" "CHR '' '' \<notin> set y"
      using Cons.prems(1,2) by (simp_all add: spaceFree_def)
    ultimately have "x = y \<and> joinSp xs = joinSp ys" by (intro append_sep_eq)
    then show ?thesis using Cons by simp
  qed
qed

lemma count_list_inj_map:
  assumes "inj_on f (insert x (set xs))"
  shows "count_list (map f xs) (f x) = count_list xs x"
  using assms
proof (induction xs)
  case Nil
  then show ?case by simp
next
  case (Cons a xs)
  then have "inj_on f (insert x (set xs))" by (auto simp: inj_on_def)
  moreover have "f a = f x \<longleftrightarrow> a = x" using Cons.prems by (auto simp: inj_on_def)
  ultimately show ?case using Cons.IH by simp
qed

lemma positions_nat:
  assumes "n \<le> Suc L"
  shows "[0..int L - int n] = map int [0..<Suc L - n]"
proof -
  have "int L - int n = int (Suc L - n) - 1" using assms by simp
  then show ?thesis by (simp only: upto_as_upt)
qed

lemma length_ngramsOf: "length (ngramsOf ts n) = Suc (length ts) - n"
  by (simp add: ngramsOf_def)

lemma ngramAt_nat:
  assumes "k + n \<le> length ts"
  shows "ngramAt ts (int n) (int k) = joinSp (take n (drop k ts))"
  using jsSlice_window[OF assms] by (simp add: ngramAt_def)

lemma contextAt_nat:
  assumes "k + n \<le> length ts" "1 \<le> n"
  shows "contextAt ts (int n) (int k) = joinSp (contextOf n (take n (drop k ts)))"
proof -
  obtain m where n: "n = Suc m" using assms(2) by (cases n) auto
  have "jsSlice ts (int k) (int k + int n - 1) = take m (drop k ts)"
    using assms(1) unfolding n by (simp add: jsSlice_def Let_def min_def)
  then show ?thesis unfolding n by (simp add: contextAt_def contextOf_def min_def)
qed

lemma ngram_strings:
  assumes "1 \<le> n" "n \<le> length ts"
  shows "map (ngramAt ts (int n)) [0..int (length ts) - int n] = map joinSp (ngramsOf ts n)"
    and "map (contextAt ts (int n)) [0..int (length ts) - int n]
         = map (\<lambda>g. joinSp (contextOf n g)) (ngramsOf ts n)"
proof -
  have P: "[0..int (length ts) - int n] = map int [0..<Suc (length ts) - n]"
    using assms by (intro positions_nat) simp
  have k: "k + n \<le> length ts" if "k < Suc (length ts) - n" for k using that assms by simp
  show "map (ngramAt ts (int n)) [0..int (length ts) - int n] = map joinSp (ngramsOf ts n)"
    unfolding P ngramsOf_def by (simp add: ngramAt_nat k)
  show "map (contextAt ts (int n)) [0..int (length ts) - int n]
         = map (\<lambda>g. joinSp (contextOf n g)) (ngramsOf ts n)"
    unfolding P ngramsOf_def using assms(1) by (simp add: contextAt_nat k)
qed

lemma buildModel_counts:
  "buildModel ts n =
     (foldl increment [] (map (ngramAt ts n) [0..int (length ts) - n]),
      foldl increment [] (map (contextAt ts n) [0..int (length ts) - n]))"
  unfolding buildModel_def foldl_map by (rule foldl_pair)

lemma scoreNGrams_sum:
  fixes NG CX :: "(string \<times> nat) list"
  shows "scoreNGrams ts n NG CX =
     (Fin (\<Sum>i\<leftarrow>[0..int (length ts) - n].
             ln (real (getCount NG (ngramAt ts n i) + 1)
                 / real (getCount CX (contextAt ts n i) + length NG + 1))),
      length [0..int (length ts) - n])"
proof -
  let ?h = "\<lambda>i. jlog (jdiv (Fin (real (getCount NG (ngramAt ts n i) + 1)))
                             (Fin (real (getCount CX (contextAt ts n i) + length NG + 1))))"
  let ?r = "\<lambda>i. ln (real (getCount NG (ngramAt ts n i) + 1)
                 / real (getCount CX (contextAt ts n i) + length NG + 1))"
  have "\<forall>i \<in> set [0..int (length ts) - n]. ?h i = Fin (?r i)"
    by (simp add: jlog_ratio del: jlog.simps jdiv.simps)
  from foldl_scored[OF this, of 0 0] show ?thesis
    by (simp add: scoreNGrams_def)
qed

lemma ngram_pairs:
  assumes "1 \<le> n" "n \<le> length ts"
  shows "map (\<lambda>i. (ngramAt ts (int n) i, contextAt ts (int n) i)) [0..int (length ts) - int n]
         = map (\<lambda>g. (joinSp g, joinSp (contextOf n g))) (ngramsOf ts n)"
proof -
  have P: "[0..int (length ts) - int n] = map int [0..<Suc (length ts) - n]"
    using assms by (intro positions_nat) simp
  have k: "k + n \<le> length ts" if "k < Suc (length ts) - n" for k using that assms by simp
  show ?thesis
    unfolding P ngramsOf_def using assms(1) by (simp add: ngramAt_nat contextAt_nat k)
qed

lemma ngramsOf_shape:
  assumes "n \<le> length ts" "g \<in> set (ngramsOf ts n)"
  shows "length g = n" and "set g \<subseteq> set ts"
proof -
  obtain k where k: "k < Suc (length ts) - n" "g = take n (drop k ts)"
    using assms(2) by (auto simp: ngramsOf_def)
  show "length g = n" using k assms(1) by simp
  show "set g \<subseteq> set ts" unfolding k(2)
    by (meson set_take_subset set_drop_subset subset_trans)
qed

lemma joinSp_inj_on:
  "inj_on joinSp {g. length g = m \<and> (\<forall>w \<in> set g. spaceFree w)}"
  by (rule inj_onI) (auto intro: joinSp_inj)

lemma model_counts:
  assumes "n \<le> length ts" "\<forall>w \<in> set ts. spaceFree w" "g \<in> set (ngramsOf ts n)"
  shows "count_list (map joinSp (ngramsOf ts n)) (joinSp g) = count_list (ngramsOf ts n) g"
    and "count_list (map (\<lambda>g. joinSp (contextOf n g)) (ngramsOf ts n)) (joinSp (contextOf n g))
         = count_list (map (contextOf n) (ngramsOf ts n)) (contextOf n g)"
    and "card (set (map joinSp (ngramsOf ts n))) = card (set (ngramsOf ts n))"
proof -
  let ?A = "{g. length g = n \<and> (\<forall>w \<in> set g. spaceFree w)}"
  let ?B = "{g. length g = n - 1 \<and> (\<forall>w \<in> set g. spaceFree w)}"
  have GA: "set (ngramsOf ts n) \<subseteq> ?A"
    using ngramsOf_shape[OF assms(1)] assms(2) by auto
  have CB: "set (map (contextOf n) (ngramsOf ts n)) \<subseteq> ?B"
  proof
    fix c assume "c \<in> set (map (contextOf n) (ngramsOf ts n))"
    then obtain h where h: "h \<in> set (ngramsOf ts n)" "c = take (n - 1) h"
      by (auto simp: contextOf_def)
    then have "length h = n" "\<forall>w \<in> set h. spaceFree w" using GA by auto
    then show "c \<in> ?B" using h(2) by (auto dest: in_set_takeD)
  qed
  have "inj_on joinSp (insert g (set (ngramsOf ts n)))"
    using GA assms(3) by (intro inj_on_subset[OF joinSp_inj_on[of n]]) auto
  then show "count_list (map joinSp (ngramsOf ts n)) (joinSp g) = count_list (ngramsOf ts n) g"
    by (rule count_list_inj_map)
  have "contextOf n g \<in> set (map (contextOf n) (ngramsOf ts n))" using assms(3) by simp
  then have "inj_on joinSp (insert (contextOf n g) (set (map (contextOf n) (ngramsOf ts n))))"
    using CB by (intro inj_on_subset[OF joinSp_inj_on[of "n - 1"]]) auto
  then have "count_list (map joinSp (map (contextOf n) (ngramsOf ts n))) (joinSp (contextOf n g))
             = count_list (map (contextOf n) (ngramsOf ts n)) (contextOf n g)"
    by (rule count_list_inj_map)
  then show "count_list (map (\<lambda>g. joinSp (contextOf n g)) (ngramsOf ts n)) (joinSp (contextOf n g))
         = count_list (map (contextOf n) (ngramsOf ts n)) (contextOf n g)"
    by (simp add: comp_def)
  have "inj_on joinSp (set (ngramsOf ts n))"
    using GA by (rule inj_on_subset[OF joinSp_inj_on[of n]])
  then show "card (set (map joinSp (ngramsOf ts n))) = card (set (ngramsOf ts n))"
    by (simp add: card_image)
qed

text \<open>
  Claim C5. For every text whose token count is at least \<open>ngramOrder\<close> (an order of at
  least \<open>1\<close>), \<open>calculatePerplexity\<close> returns as \<open>averageLogProbability\<close> the arithmetic
  mean, over all n-gram positions of the token sequence, of
  \<open>log((count(ngram) + 1) / (count(context) + V + 1))\<close>, where the n-grams are counted over
  the n-grams of that same text, the contexts (the first \<open>ngramOrder - 1\<close> tokens of each
  n-gram) over their contexts, and \<open>V\<close> is the number of distinct n-grams; and it
  returns \<open>perplexity = exp(- averageLogProbability)\<close>. With exact arithmetic both values
  are finite, so the normalization of non-finite values to \<open>+Infinity\<close> and \<open>-Infinity\<close>,
  which \<open>perplexityRecord\<close> performs, leaves them as they are.
\<close>

theorem calculatePerplexity_ngram:
  assumes "1 \<le> n" "n \<le> length (tokenize str)"
  shows "calculatePerplexity str (int n) =
           \<lparr>perplexity = Fin (exp (- meanLogProb (tokenize str) n)),
            averageLogProbability = Fin (meanLogProb (tokenize str) n),
            tokenCount = length (tokenize str)\<rparr>"
proof -
  define ts where "ts = tokenize str"
  define G where "G = ngramsOf ts n"
  define NG where "NG = foldl increment [] (map joinSp G)"
  define CX where "CX = foldl increment [] (map (\<lambda>g. joinSp (contextOf n g)) G)"
  define F where "F = (\<lambda>p :: string \<times> string.
      ln (real (getCount NG (fst p) + 1) / real (getCount CX (snd p) + length NG + 1)))"
  have n: "1 \<le> n" "n \<le> length ts" using assms by (simp_all add: ts_def)
  have sf: "\<forall>w \<in> set ts. spaceFree w" by (simp add: ts_def tokenize_spaceFree)
  have ne: "ts \<noteq> []" using n by auto
  have nb: "length (trim str) \<noteq> 0" using ne tokenize_blank[of str] by (auto simp: ts_def)
  have lenG: "length G = Suc (length ts) - n" by (simp add: G_def length_ngramsOf)
  have lenP: "length [0..int (length ts) - int n] = length G"
    using n by (simp add: lenG)
  have posG: "0 < length G" using n by (simp add: lenG)
  have bm: "buildModel ts (int n) = (NG, CX)"
    by (simp add: buildModel_counts ngram_strings[OF n] NG_def CX_def G_def)
  have "(\<Sum>i\<leftarrow>[0..int (length ts) - int n].
           ln (real (getCount NG (ngramAt ts (int n) i) + 1)
               / real (getCount CX (contextAt ts (int n) i) + length NG + 1)))
        = sum_list (map F (map (\<lambda>i. (ngramAt ts (int n) i, contextAt ts (int n) i))
                              [0..int (length ts) - int n]))"
    by (simp add: F_def comp_def)
  also have "\<dots> = sum_list (map F (map (\<lambda>g. (joinSp g, joinSp (contextOf n g))) G))"
    by (simp only: ngram_pairs[OF n] G_def)
  also have "\<dots> = (\<Sum>g\<leftarrow>G. ln (smoothedProb ts n g))"
  proof -
    have "F (joinSp g, joinSp (contextOf n g)) = ln (smoothedProb ts n g)" if "g \<in> set G" for g
    proof -
      have g: "g \<in> set (ngramsOf ts n)" using that by (simp add: G_def)
      have ci: "card (joinSp ` set (ngramsOf ts n)) = card (set (ngramsOf ts n))"
        using model_counts(3)[OF n(2) sf g] by simp
      show ?thesis
        unfolding F_def NG_def CX_def G_def
        by (simp add: getCount_counts size_foldl_increment smoothedProb_def
            model_counts(1,2)[OF n(2) sf g] ci)
    qed
    then show ?thesis by (simp add: comp_def cong: map_cong)
  qed
  finally have sum: "(\<Sum>i\<leftarrow>[0..int (length ts) - int n].
           ln (real (getCount NG (ngramAt ts (int n) i) + 1)
               / real (getCount CX (contextAt ts (int n) i) + length NG + 1)))
        = (\<Sum>g\<leftarrow>G. ln (smoothedProb ts n g))" .
  have sc: "scoreNGrams ts (int n) NG CX = (Fin (\<Sum>g\<leftarrow>G. ln (smoothedProb ts n g)), length G)"
    by (simp only: scoreNGrams_sum sum lenP)
  have avg: "jdiv (Fin (\<Sum>g\<leftarrow>G. ln (smoothedProb ts n g))) (Fin (real (length G)))
             = Fin (meanLogProb ts n)"
    using posG by (simp add: meanLogProb_def G_def)
  have "calculatePerplexity str (int n) = perplexityRecord (Fin (meanLogProb ts n)) (length ts)"
    using nb n(2) posG
    by (simp add: calculatePerplexity_def Let_def ts_def[symmetric] bm sc avg
        del: jdiv.simps)
  then show ?thesis by (simp add: perplexityRecord_Fin ts_def)
qed

theorem calculatePerplexity_ngram_witness:
  "(1::nat) \<le> 2 \<and> 2 \<le> length (tokenize ''a b a'') \<and>
   calculatePerplexity ''a b a'' 2 =
     \<lparr>perplexity = Fin 2, averageLogProbability = Fin (ln (1 / 2)), tokenCount = 3\<rparr>"
proof -
  have t: "tokenize ''a b a'' = [''a'', ''b'', ''a'']" by code_simp
  have g: "ngramsOf [''a'', ''b'', ''a''] 2 = [[''a'', ''b''], [''b'', ''a'']]"
    by (simp add: ngramsOf_def upt_rec)
  have m: "meanLogProb [''a'', ''b'', ''a''] 2 = ln (1 / 2)"
    by (simp add: meanLogProb_def smoothedProb_def contextOf_def g)
  have e: "exp (- ln (1 / 2 :: real)) = 2" by (simp add: exp_minus)
  have h: "2 \<le> length (tokenize ''a b a'')" by (simp add: t)
  from calculatePerplexity_ngram[of 2 "''a b a''"] h show ?thesis
    by (simp add: t m e)
qed

text \<open>
  Claim C4, as the code has it. For every text that is not blank after trimming and
  tokenizes to fewer than \<open>ngramOrder\<close> tokens, \<open>calculatePerplexity\<close> returns the result of
  the unigram fallback on its tokens, and the perplexity returned is finite exactly when
  the text has at least one token. (A text of punctuation only is not blank and has no
  token: the fallback answers \<open>+Infinity\<close> for it.)
\<close>

theorem calculatePerplexity_short_text:
  assumes "length (trim str) \<noteq> 0" "int (length (tokenize str)) < ngramOrder"
  shows "calculatePerplexity str ngramOrder = calculateUnigramPerplexity (tokenize str) \<and>
         (isFinite (perplexity (calculatePerplexity str ngramOrder)) \<longleftrightarrow> tokenize str \<noteq> [])"
proof -
  have r: "calculatePerplexity str ngramOrder = calculateUnigramPerplexity (tokenize str)"
    using assms by (simp add: calculatePerplexity_def Let_def)
  have "isFinite (perplexity (calculateUnigramPerplexity (tokenize str))) \<longleftrightarrow> tokenize str \<noteq> []"
  proof (cases "tokenize str = []")
    case True
    then show ?thesis by (simp add: calculateUnigramPerplexity_def)
  next
    case False
    then show ?thesis by (simp add: unigram_value perplexityRecord_Fin)
  qed
  with r show ?thesis by simp
qed

theorem calculatePerplexity_short_text_witness:
  "length (trim ''hello world'') \<noteq> 0 \<and> int (length (tokenize ''hello world'')) < 3 \<and>
   calculatePerplexity ''hello world'' 3 = calculateUnigramPerplexity (tokenize ''hello world'') \<and>
   isFinite (perplexity (calculatePerplexity ''hello world'' 3))"
proof -
  have t: "tokenize ''hello world'' = [''hello'', ''world'']" by code_simp
  have b: "length (trim ''hello world'') \<noteq> 0" by code_simp
  have l: "int (length (tokenize ''hello world'')) < 3" by (simp add: t)
  note r = calculatePerplexity_short_text[OF b l]
  from r have 1: "calculatePerplexity ''hello world'' 3
                  = calculateUnigramPerplexity (tokenize ''hello world'')"
    by (rule conjunct1)
  from r have "isFinite (perplexity (calculatePerplexity ''hello world'' 3))
                \<longleftrightarrow> tokenize ''hello world'' \<noteq> []"
    by (rule conjunct2)
  then have 2: "isFinite (perplexity (calculatePerplexity ''hello world'' 3))"
    by (simp add: t)
  from b l 1 2 show ?thesis by blast
qed

text \<open>
  Claim C4 as first stated, a finite perplexity for every non-blank text shorter than
  \<open>ngramOrder\<close>, fails on \<open>"!!!"\<close> with the default order \<open>3\<close>: the text is not blank,
  it has no token, and the perplexity returned is \<open>+Infinity\<close>.
\<close>

theorem calculatePerplexity_punctuation_counterexample:
  "length (trim ''!!!'') \<noteq> 0 \<and> int (length (tokenize ''!!!'')) < 3 \<and>
   calculatePerplexity ''!!!'' 3 = calculateUnigramPerplexity (tokenize ''!!!'') \<and>
   \<not> isFinite (perplexity (calculatePerplexity ''!!!'' 3))"
proof -
  have t: "tokenize ''!!!'' = []" by code_simp
  have b: "length (trim ''!!!'') \<noteq> 0" by code_simp
  show ?thesis using b
    by (simp add: t calculatePerplexity_def calculateUnigramPerplexity_def)
qed














section \<open>Emotion analysis\<close>

lemma average_nonempty:
  "xs \<noteq> [] \<Longrightarrow> average xs = Fin (foldl (\<lambda>a b. a + b) 0 xs / real (length xs))"
  by (simp add: average_def)

lemma analyzeTrends_single:
  "analyzeTrends [c] = \<lparr>improving = False, declining = False, stable = False\<rparr>"
  by (simp add: analyzeTrends_def average_def infOfSign_def jsub_def jgt_def jle_def)

lemma analyzeTrends_exclusive:
  assumes "2 \<le> length cs"
  shows "exactlyOne (analyzeTrends cs)"
proof -
  have 1: "take (length cs div 2) cs \<noteq> []" using assms by auto
  have 2: "drop (length cs div 2) cs \<noteq> []" using assms by auto
  obtain a where a: "average (take (length cs div 2) cs) = Fin a"
    using average_nonempty[OF 1] by blast
  obtain b where b: "average (drop (length cs div 2) cs) = Fin b"
    using average_nonempty[OF 2] by blast
  have t: "analyzeTrends cs =
           \<lparr>improving = (1 / 10 < b - a), declining = (b - a < - (1 / 10)),
            stable = (\<bar>b - a\<bar> \<le> 1 / 10)\<rparr>"
    unfolding analyzeTrends_def Let_def a b
    by (auto simp: jsub_def jgt_def jle_def)
  show ?thesis unfolding t exactlyOne_def
    by (simp del: divide_le_eq_numeral1 le_divide_eq_numeral1 less_divide_eq_numeral1 divide_less_eq_numeral1) linarith
qed

lemma trends_aggregate:
  "emotionalTrends (aggregate e ms) = analyzeTrends (map (\<lambda>m. feature (snd m) ''confidence'' 0) ms)"
  by (simp add: aggregate_def Let_def)

lemma map_snd_enumerate_fun: "map (\<lambda>p. g (snd p)) (enumerate n xs) = map g xs"
  by (induction xs arbitrary: n) simp_all

lemma breakdown_states:
  "map emotionalState (detailedBreakdown (aggregate e ms)) = map (\<lambda>m. classify e (snd m)) ms"
proof -
  have "map emotionalState (detailedBreakdown (aggregate e ms))
        = map (\<lambda>p. classify e (snd (snd p))) (enumerate 0 ms)"
    by (simp add: aggregate_def Let_def breakdownEntry_def comp_def split_def)
  also have "\<dots> = map (\<lambda>m. classify e (snd m)) ms"
    by (rule map_snd_enumerate_fun)
  finally show ?thesis .
qed

lemma breakdown_emotions:
  "map emotions (detailedBreakdown (aggregate e ms)) = map snd ms"
proof -
  have "map emotions (detailedBreakdown (aggregate e ms))
        = map (\<lambda>p. snd (snd p)) (enumerate 0 ms)"
    by (simp add: aggregate_def Let_def breakdownEntry_def comp_def split_def)
  also have "\<dots> = map snd ms"
    by (rule map_snd_enumerate_fun)
  finally show ?thesis .
qed

lemma classify_text_spec: "classify engagedText f = stateBySpec f"
  by (simp add: classify_def engagedText_def stateBySpec_def feature_def Let_def split: option.splits)

text \<open>
  Claim C1 says that exactly one of the flags \<open>improving\<close>, \<open>declining\<close> and \<open>stable\<close>
  is true for every non-empty sequence of qualifying messages, a single message included.
  For two messages or more this is \<open>analyzeTrends_exclusive\<close>. For a single message the
  first half of the confidence scores is empty, its mean is \<open>0 / 0\<close>, and every comparison
  with \<open>NaN\<close> is false: both services return the three flags false.
\<close>

theorem single_message_has_no_trend:
  "emotionalTrends (analyzeEmotions
     [\<lparr>speaker = Interviewee, msgText = ''I led the team'',
       emotionFeatures = Some [(''confidence'', 8 / 10)]\<rparr>])
   = \<lparr>improving = False, declining = False, stable = False\<rparr> \<and>
   emotionalTrends (analyzeTextEmotions
     [\<lparr>speaker = Interviewee, msgText = ''I led the team'', emotionFeatures = None\<rparr>])
   = \<lparr>improving = False, declining = False, stable = False\<rparr>"
  by (simp add: analyzeEmotions_def analyzeTextEmotions_def qualifies_def trends_aggregate
      analyzeTrends_single)

text \<open>
  Claim C2 gives the label \<open>engaged\<close> when the interest value (falling back to
  engagement, then to \<open>0\<close>) is greater than \<open>0.6\<close>. The text service does so
  (\<open>classify_text_spec\<close>). In \<open>analyzeEmotions\<close> the comparison is applied to the literal
  \<open>0\<close> only, so any non-zero interest gives \<open>engaged\<close>: a message with confidence \<open>0.5\<close>
  and interest \<open>0.1\<close> is labelled \<open>engaged\<close>, where the priority order of the claim gives
  \<open>uncertain\<close>.
\<close>

theorem engaged_label_ignores_threshold:
  "map emotionalState (detailedBreakdown (analyzeEmotions
     [\<lparr>speaker = Interviewee, msgText = ''ok'',
       emotionFeatures = Some [(''confidence'', 5 / 10), (''interest'', 1 / 10)]\<rparr>]))
   = [Engaged] \<and>
   stateBySpec [(''confidence'', 5 / 10), (''interest'', 1 / 10)] = Uncertain"
  by (simp add: analyzeEmotions_def qualifies_def featuresOf_def breakdown_states
      classify_def engagedHume_def feature_def stateBySpec_def)

lemma qualifying_features:
  "map featuresOf (filter qualifies messages) = presentFeatures messages"
  by (induction messages)
     (auto simp: presentFeatures_def map_filter_simps qualifies_def featuresOf_def)

lemma qualifies_filter:
  "filter qualifies messages =
   filter (\<lambda>m. speaker m = Interviewee \<and> emotionFeatures m \<noteq> None) messages"
  by (simp add: qualifies_def[abs_def])

lemma analyzeEmotions_filter:
  "analyzeEmotions (filter qualifies messages) = analyzeEmotions messages"
  by (simp add: analyzeEmotions_def)

lemma analyzeEmotions_breakdown:
  "map emotions (detailedBreakdown (analyzeEmotions messages)) = presentFeatures messages"
proof (cases "filter qualifies messages = []")
  case True
  then show ?thesis
    using qualifying_features[of messages] by (simp add: analyzeEmotions_def)
next
  case False
  then show ?thesis
    using qualifying_features[of messages]
    by (simp add: analyzeEmotions_def breakdown_emotions comp_def)
qed

lemma analyzeEmotions_means:
  assumes "presentFeatures messages \<noteq> []"
  shows "overallConfidence (analyzeEmotions messages)
           = average (map (\<lambda>f. feature f ''confidence'' 0) (presentFeatures messages))"
    and "averageCalmness (analyzeEmotions messages)
           = average (map (\<lambda>f. feature f ''calmness'' 0) (presentFeatures messages))"
proof -
  have ne: "filter qualifies messages \<noteq> []"
    using assms qualifying_features[of messages] by auto
  show "overallConfidence (analyzeEmotions messages)
           = average (map (\<lambda>f. feature f ''confidence'' 0) (presentFeatures messages))"
    using ne by (simp add: analyzeEmotions_def aggregate_def Let_def comp_def
        qualifying_features[symmetric])
  show "averageCalmness (analyzeEmotions messages)
           = average (map (\<lambda>f. feature f ''calmness'' 0) (presentFeatures messages))"
    using ne by (simp add: analyzeEmotions_def aggregate_def Let_def comp_def
        qualifying_features[symmetric])
qed

text \<open>
  Claim C3, as the code has it. \<open>analyzeEmotions\<close> aggregates exactly those input
  messages whose speaker is the interviewee and whose \<open>emotionFeatures\<close> map is present,
  empty or not: its result is the one for the list of these messages alone, the detailed
  breakdown has one entry for each of them, in order, with the message's map, and the two
  means are taken over them, a missing confidence or calmness counting as \<open>0\<close>.
\<close>

theorem analyzeEmotions_aggregates_present_maps:
  "analyzeEmotions messages
     = analyzeEmotions
         (filter (\<lambda>m. speaker m = Interviewee \<and> emotionFeatures m \<noteq> None) messages) \<and>
   map emotions (detailedBreakdown (analyzeEmotions messages)) = presentFeatures messages \<and>
   (presentFeatures messages \<noteq> [] \<longrightarrow>
      overallConfidence (analyzeEmotions messages)
        = average (map (\<lambda>f. feature f ''confidence'' 0) (presentFeatures messages)) \<and>
      averageCalmness (analyzeEmotions messages)
        = average (map (\<lambda>f. feature f ''calmness'' 0) (presentFeatures messages)))"
  using analyzeEmotions_filter[of messages] analyzeEmotions_breakdown[of messages]
    analyzeEmotions_means[of messages]
  by (simp add: qualifies_filter)

theorem analyzeEmotions_aggregates_present_maps_witness:
  "presentFeatures
     [\<lparr>speaker = Interviewee, msgText = ''hi'', emotionFeatures = Some []\<rparr>,
      \<lparr>speaker = Interviewer, msgText = ''q'', emotionFeatures = Some [(''confidence'', 1)]\<rparr>,
      \<lparr>speaker = Interviewee, msgText = ''yes'', emotionFeatures = None\<rparr>,
      \<lparr>speaker = Interviewee, msgText = ''ok'', emotionFeatures = Some [(''confidence'', 1)]\<rparr>]
   = [[], [(''confidence'', 1)]] \<and>
   overallConfidence (analyzeEmotions
     [\<lparr>speaker = Interviewee, msgText = ''hi'', emotionFeatures = Some []\<rparr>,
      \<lparr>speaker = Interviewer, msgText = ''q'', emotionFeatures = Some [(''confidence'', 1)]\<rparr>,
      \<lparr>speaker = Interviewee, msgText = ''yes'', emotionFeatures = None\<rparr>,
      \<lparr>speaker = Interviewee, msgText = ''ok'', emotionFeatures = Some [(''confidence'', 1)]\<rparr>])
   = Fin (1 / 2)"
proof -
  let ?ms = "[\<lparr>speaker = Interviewee, msgText = ''hi'', emotionFeatures = Some []\<rparr>,
      \<lparr>speaker = Interviewer, msgText = ''q'', emotionFeatures = Some [(''confidence'', 1)]\<rparr>,
      \<lparr>speaker = Interviewee, msgText = ''yes'', emotionFeatures = None\<rparr>,
      \<lparr>speaker = Interviewee, msgText = ''ok'', emotionFeatures = Some [(''confidence'', 1)]\<rparr>]"
  have p: "presentFeatures ?ms = [[], [(''confidence'', 1)]]"
    by (simp add: presentFeatures_def map_filter_simps)
  from analyzeEmotions_aggregates_present_maps[of ?ms]
  have "presentFeatures ?ms \<noteq> [] \<longrightarrow>
        overallConfidence (analyzeEmotions ?ms)
          = average (map (\<lambda>f. feature f ''confidence'' 0) (presentFeatures ?ms)) \<and>
        averageCalmness (analyzeEmotions ?ms)
          = average (map (\<lambda>f. feature f ''calmness'' 0) (presentFeatures ?ms))"
    by blast
  then have "overallConfidence (analyzeEmotions ?ms) = Fin (1 / 2)"
    unfolding p by (simp add: average_def feature_def)
  with p show ?thesis by simp
qed

text \<open>
  Claim C3 as first stated excludes a message whose map is present but empty. Such a
  message has an entry in the breakdown and enters the statistics: alone, it gives a
  stability of \<open>1\<close>, not the empty result.
\<close>

theorem empty_feature_map_counterexample:
  "length (detailedBreakdown (analyzeEmotions
      [\<lparr>speaker = Interviewee, msgText = ''hi'', emotionFeatures = Some []\<rparr>])) = 1 \<and>
   emotionalStability (analyzeEmotions
      [\<lparr>speaker = Interviewee, msgText = ''hi'', emotionFeatures = Some []\<rparr>]) = Fin 1 \<and>
   analyzeEmotions [\<lparr>speaker = Interviewee, msgText = ''hi'', emotionFeatures = Some []\<rparr>]
     \<noteq> analyzeEmotions []"
proof -
  let ?m = "\<lparr>speaker = Interviewee, msgText = ''hi'', emotionFeatures = Some []\<rparr>"
  have 1: "length (detailedBreakdown (analyzeEmotions [?m])) = 1"
    by (simp add: analyzeEmotions_def qualifies_def aggregate_def Let_def)
  have 2: "emotionalStability (analyzeEmotions [?m]) = Fin 1"
    by (simp add: analyzeEmotions_def qualifies_def aggregate_def Let_def featuresOf_def feature_def
        average_def stability_def jsub_def jmin_def)
  have 3: "emotionalStability (analyzeEmotions []) = Fin 0"
    by (simp add: analyzeEmotions_def)
  from 2 3 have "analyzeEmotions [?m] \<noteq> analyzeEmotions []" by auto
  with 1 2 show ?thesis by simp
qed

lemma aggregate_breakdown_length: "length (detailedBreakdown (aggregate e ms)) = length ms"
  by (simp add: aggregate_def Let_def)

text \<open>
  Claim C9, as the code has it. \<open>analyzeEmotions\<close> returns the empty result (the three
  scalar metrics \<open>0\<close>, no dominant emotion, an empty breakdown, \<open>stable = true\<close> and
  \<open>improving = declining = false\<close>, and exactly one insight, the sentinel string) exactly
  for the message lists with no interviewee message that has a feature map, empty or
  not; \<open>analyzeTextEmotions\<close> returns its empty result exactly for the message lists with
  no interviewee message. The model has no failing branch: the functions are total.
\<close>

theorem no_qualifying_messages:
  "(filter (\<lambda>m. speaker m = Interviewee \<and> emotionFeatures m \<noteq> None) messages = [] \<longleftrightarrow>
      analyzeEmotions messages =
        \<lparr>overallConfidence = Fin 0, averageCalmness = Fin 0, emotionalStability = Fin 0,
         dominantEmotions = [],
         emotionalTrends = \<lparr>improving = False, declining = False, stable = True\<rparr>,
         insights = [''No emotional data available for analysis''],
         recommendations = [''Ensure emotion features are captured for interviewee messages''],
         detailedBreakdown = []\<rparr>) \<and>
   (filter (\<lambda>m. speaker m = Interviewee) messages = [] \<longleftrightarrow>
      analyzeTextEmotions messages =
        \<lparr>overallConfidence = Fin 0, averageCalmness = Fin 0, emotionalStability = Fin 0,
         dominantEmotions = [],
         emotionalTrends = \<lparr>improving = False, declining = False, stable = True\<rparr>,
         insights = [''No interviewee messages available for analysis''],
         recommendations = [''Ensure interview transcript contains interviewee responses''],
         detailedBreakdown = []\<rparr>)"
proof -
  let ?h = "\<lparr>overallConfidence = Fin 0, averageCalmness = Fin 0, emotionalStability = Fin 0,
         dominantEmotions = [],
         emotionalTrends = \<lparr>improving = False, declining = False, stable = True\<rparr>,
         insights = [''No emotional data available for analysis''],
         recommendations = [''Ensure emotion features are captured for interviewee messages''],
         detailedBreakdown = []\<rparr>"
  let ?t = "\<lparr>overallConfidence = Fin 0, averageCalmness = Fin 0, emotionalStability = Fin 0,
         dominantEmotions = [],
         emotionalTrends = \<lparr>improving = False, declining = False, stable = True\<rparr>,
         insights = [''No interviewee messages available for analysis''],
         recommendations = [''Ensure interview transcript contains interviewee responses''],
         detailedBreakdown = []\<rparr>"
  have h1: "analyzeEmotions messages = ?h" if "filter qualifies messages = []"
    using that by (simp add: analyzeEmotions_def)
  have h2: "analyzeEmotions messages \<noteq> ?h" if "filter qualifies messages \<noteq> []"
  proof
    assume "analyzeEmotions messages = ?h"
    then have "length (detailedBreakdown (analyzeEmotions messages)) = 0" by simp
    moreover have "length (detailedBreakdown (analyzeEmotions messages))
                   = length (filter qualifies messages)"
      using that by (simp add: analyzeEmotions_def aggregate_breakdown_length)
    ultimately show False using that by simp
  qed
  have t1: "analyzeTextEmotions messages = ?t"
    if "filter (\<lambda>m. speaker m = Interviewee) messages = []"
    using that by (simp add: analyzeTextEmotions_def)
  have t2: "analyzeTextEmotions messages \<noteq> ?t"
    if "filter (\<lambda>m. speaker m = Interviewee) messages \<noteq> []"
  proof
    assume "analyzeTextEmotions messages = ?t"
    then have "length (detailedBreakdown (analyzeTextEmotions messages)) = 0" by simp
    moreover have "length (detailedBreakdown (analyzeTextEmotions messages))
                   = length (filter (\<lambda>m. speaker m = Interviewee) messages)"
      using that by (simp add: analyzeTextEmotions_def aggregate_breakdown_length)
    ultimately show False using that by simp
  qed
  have q: "filter qualifies messages
           = filter (\<lambda>m. speaker m = Interviewee \<and> emotionFeatures m \<noteq> None) messages"
    by (simp add: qualifies_def[abs_def])
  from h1 h2 t1 t2 show ?thesis unfolding q by blast
qed

theorem no_qualifying_messages_witness:
  "filter (\<lambda>m. speaker m = Interviewee \<and> emotionFeatures m \<noteq> None)
     [\<lparr>speaker = Interviewer, msgText = ''Tell me about yourself'',
       emotionFeatures = Some [(''confidence'', 9 / 10)]\<rparr>,
      \<lparr>speaker = Interviewee, msgText = ''I build compilers'', emotionFeatures = None\<rparr>] = [] \<and>
   insights (analyzeEmotions
     [\<lparr>speaker = Interviewer, msgText = ''Tell me about yourself'',
       emotionFeatures = Some [(''confidence'', 9 / 10)]\<rparr>,
      \<lparr>speaker = Interviewee, msgText = ''I build compilers'', emotionFeatures = None\<rparr>])
     = [''No emotional data available for analysis''] \<and>
   filter (\<lambda>m. speaker m = Interviewee)
     [\<lparr>speaker = Interviewer, msgText = ''Tell me about yourself'',
       emotionFeatures = Some [(''confidence'', 9 / 10)]\<rparr>] = [] \<and>
   insights (analyzeTextEmotions
     [\<lparr>speaker = Interviewer, msgText = ''Tell me about yourself'',
       emotionFeatures = Some [(''confidence'', 9 / 10)]\<rparr>])
     = [''No interviewee messages available for analysis'']"
proof -
  let ?a = "\<lparr>speaker = Interviewer, msgText = ''Tell me about yourself'',
       emotionFeatures = Some [(''confidence'', 9 / 10)]\<rparr>"
  let ?b = "\<lparr>speaker = Interviewee, msgText = ''I build compilers'', emotionFeatures = None\<rparr>"
  have f1: "filter (\<lambda>m. speaker m = Interviewee \<and> emotionFeatures m \<noteq> None) [?a, ?b] = []"
    by simp
  have f2: "filter (\<lambda>m. speaker m = Interviewee) [?a] = []" by simp
  from no_qualifying_messages[of "[?a, ?b]"] f1
  have 1: "insights (analyzeEmotions [?a, ?b]) = [''No emotional data available for analysis'']"
    by simp
  from no_qualifying_messages[of "[?a]"] f2
  have 2: "insights (analyzeTextEmotions [?a])
           = [''No interviewee messages available for analysis'']"
    by simp
  from f1 f2 1 2 show ?thesis by blast
qed

text \<open>
  Claim C9 as first stated, with a qualifying message being one whose feature map is
  present and not empty, fails on a single interviewee message with an empty map: no
  message qualifies, and \<open>analyzeEmotions\<close> returns a stability of \<open>1\<close>, no flag
  \<open>stable\<close>, three insights and one breakdown entry.
\<close>

theorem no_nonempty_map_counterexample:
  "filter qualifiesBySpec
     [\<lparr>speaker = Interviewee, msgText = ''hi'', emotionFeatures = Some []\<rparr>] = [] \<and>
   emotionalStability (analyzeEmotions
     [\<lparr>speaker = Interviewee, msgText = ''hi'', emotionFeatures = Some []\<rparr>]) = Fin 1 \<and>
   stable (emotionalTrends (analyzeEmotions
     [\<lparr>speaker = Interviewee, msgText = ''hi'', emotionFeatures = Some []\<rparr>])) = False \<and>
   length (insights (analyzeEmotions
     [\<lparr>speaker = Interviewee, msgText = ''hi'', emotionFeatures = Some []\<rparr>])) = 3 \<and>
   length (detailedBreakdown (analyzeEmotions
     [\<lparr>speaker = Interviewee, msgText = ''hi'', emotionFeatures = Some []\<rparr>])) = 1"
  by (simp add: qualifiesBySpec_def analyzeEmotions_def qualifies_def aggregate_def Let_def
      featuresOf_def feature_def average_def stability_def jsub_def jmin_def jge_def jle_def
      jgt_def analyzeTrends_def infOfSign_def generateInsights_def)

end
